theory Spec2Isabelle
  imports Complex_Main
begin

section \<open>Conventions\<close>

text \<open>
  Python \<open>float\<close> values are modelled as \<^typ>\<open>real\<close>: rounding, infinities and NaN
  are outside the model. A Python division whose divisor is zero raises
  \<open>ZeroDivisionError\<close>; the model returns that error as a value. A numpy array
  division whose divisor is zero yields \<open>inf\<close> or \<open>nan\<close> instead of raising; as the
  reals have neither, the model returns \<open>NumpyNonFinite\<close> there and says nothing
  about what the Python does with such a value afterwards. \<open>OtherException\<close> stands
  for any other subclass of \<open>Exception\<close> that a collaborator raises (a timeout, an
  adapter error), with its message.
\<close>

datatype py_error =
    ZeroDivisionError
  | NumpyNonFinite
  | IndexError
  | KeyError string
  | TypeError
  | AttributeError string
  | OtherException string

definition py_div :: "real \<Rightarrow> real \<Rightarrow> py_error + real" where
  "py_div a b = (if b = 0 then Inl ZeroDivisionError else Inr (a / b))"

section \<open>scanners/pair\_scanner.py: data\<close>

datatype MarketType = SPOT | FUTURES | MARGIN

datatype Timeframe = M1 | M5 | M15 | M30 | H1 | H4 | D1

record PairInfo =
  symbol :: string
  exchange :: string
  market_type :: MarketType
  base_currency :: string
  quote_currency :: string
  price :: real
  volume_24h :: real
  volume_change_24h :: real
  price_change_24h :: real
  market_cap :: "real option"
  available_margin :: bool
  pair_max_leverage :: int
  min_order_size :: real
  tick_size :: real

text \<open>
  \<open>time_to_expire\<close> is a \<open>timedelta\<close>, kept in minutes. \<open>reasoning\<close> is a text: either
  a given string, or the scanner's text, which formats the strategy, the confidence, the
  overall score, the 24h volume and the 24h price change into a fixed pattern.
\<close>

datatype opportunity_reasoning =
    PlainReasoning string
  | ScannerReasoning string real real real real

record QuickOpportunity =
  pair :: PairInfo
  timeframe :: Timeframe
  strategy :: string
  signal :: string
  confidence :: real
  entry_price :: real
  stop_loss :: "real option"
  take_profit :: "real option"
  risk_reward_ratio :: real
  time_to_expire :: nat
  reasoning :: opportunity_reasoning
  technical_score :: real
  volume_score :: real
  volatility_score :: real
  overall_score :: real

section \<open>risk\_management/risk\_levels.py\<close>

datatype RiskLevel = CONSERVATIVE | AGGRESSIVE | TURBO

datatype LeverageMode = DYNAMIC | FIXED | ADAPTIVE

record RiskProfile =
  risk_level :: RiskLevel
  max_leverage :: real
  base_position_size :: real
  max_position_size :: real
  stop_loss_percentage :: real
  take_profit_percentage :: real
  max_drawdown :: real
  max_daily_trades :: int
  risk_per_trade :: real
  volatility_threshold :: real
  confidence_threshold :: real
  emergency_stop_loss :: real
  position_sizing_method :: string
  diversification_limit :: int

record PositionSizing =
  base_size :: real
  leverage :: real
  adjusted_size :: real
  risk_amount :: real
  stop_distance :: real
  position_value :: real
  margin_required :: real
  max_loss :: real

record RiskMetrics =
  current_exposure :: real
  total_leverage :: real
  portfolio_var :: real
  m_max_drawdown :: real
  sharpe_ratio :: real
  win_rate :: real
  profit_factor :: real
  risk_score :: real
  margin_utilization :: real
  diversification_score :: real

text \<open>
  The manager's dictionaries \<open>risk_profiles\<close> and \<open>leverage_modes\<close> have exactly the
  three risk levels as keys, so they are total functions on \<^typ>\<open>RiskLevel\<close>.
\<close>

record RiskManager =
  current_risk_level :: RiskLevel
  risk_profiles :: "RiskLevel \<Rightarrow> RiskProfile"
  leverage_modes :: "RiskLevel \<Rightarrow> LeverageMode"
  current_metrics :: RiskMetrics
  risk_history :: "RiskMetrics list"

definition conservative_profile :: RiskProfile where
  "conservative_profile = \<lparr>
     risk_level = CONSERVATIVE, max_leverage = 2, base_position_size = 1000,
     max_position_size = 5000, stop_loss_percentage = 2 / 100,
     take_profit_percentage = 4 / 100, max_drawdown = 5 / 100, max_daily_trades = 5,
     risk_per_trade = 1 / 100, volatility_threshold = 3 / 100,
     confidence_threshold = 8 / 10, emergency_stop_loss = 3 / 100,
     position_sizing_method = ''kelly_criterion'', diversification_limit = 3 \<rparr>"

definition aggressive_profile :: RiskProfile where
  "aggressive_profile = \<lparr>
     risk_level = AGGRESSIVE, max_leverage = 5, base_position_size = 2000,
     max_position_size = 10000, stop_loss_percentage = 3 / 100,
     take_profit_percentage = 6 / 100, max_drawdown = 10 / 100, max_daily_trades = 15,
     risk_per_trade = 25 / 1000, volatility_threshold = 5 / 100,
     confidence_threshold = 7 / 10, emergency_stop_loss = 5 / 100,
     position_sizing_method = ''volatility_adjusted'', diversification_limit = 5 \<rparr>"

definition turbo_profile :: RiskProfile where
  "turbo_profile = \<lparr>
     risk_level = TURBO, max_leverage = 10, base_position_size = 5000,
     max_position_size = 20000, stop_loss_percentage = 5 / 100,
     take_profit_percentage = 10 / 100, max_drawdown = 20 / 100, max_daily_trades = 30,
     risk_per_trade = 5 / 100, volatility_threshold = 8 / 100,
     confidence_threshold = 6 / 10, emergency_stop_loss = 8 / 100,
     position_sizing_method = ''momentum_based'', diversification_limit = 8 \<rparr>"

fun create_risk_profiles :: "RiskLevel \<Rightarrow> RiskProfile" where
  "create_risk_profiles CONSERVATIVE = conservative_profile"
| "create_risk_profiles AGGRESSIVE = aggressive_profile"
| "create_risk_profiles TURBO = turbo_profile"

fun init_leverage_modes :: "RiskLevel \<Rightarrow> LeverageMode" where
  "init_leverage_modes CONSERVATIVE = FIXED"
| "init_leverage_modes AGGRESSIVE = DYNAMIC"
| "init_leverage_modes TURBO = ADAPTIVE"

definition init_metrics :: RiskMetrics where
  "init_metrics = \<lparr>
     current_exposure = 0, total_leverage = 1, portfolio_var = 0, m_max_drawdown = 0,
     sharpe_ratio = 0, win_rate = 0, profit_factor = 0, risk_score = 0,
     margin_utilization = 0, diversification_score = 0 \<rparr>"

text \<open>\<open>RiskManager.__init__\<close>.\<close>

definition init_RiskManager :: RiskManager where
  "init_RiskManager = \<lparr>
     current_risk_level = CONSERVATIVE,
     risk_profiles = create_risk_profiles,
     leverage_modes = init_leverage_modes,
     current_metrics = init_metrics,
     risk_history = [] \<rparr>"

definition set_risk_level :: "RiskLevel \<Rightarrow> RiskManager \<Rightarrow> RiskManager" where
  "set_risk_level lvl rm = rm\<lparr>current_risk_level := lvl\<rparr>"

definition get_current_profile :: "RiskManager \<Rightarrow> RiskProfile" where
  "get_current_profile rm = risk_profiles rm (current_risk_level rm)"

definition create_risk_manager :: "RiskLevel \<Rightarrow> RiskManager" where
  "create_risk_manager initial_level = set_risk_level initial_level init_RiskManager"

text \<open>
  \<open>market_conditions\<close> is a dictionary from names to numbers;
  \<open>market_conditions.get('trend_strength', 0.5)\<close> reads it with a default.
\<close>

definition get_trend_strength :: "(string \<rightharpoonup> real) \<Rightarrow> real" where
  "get_trend_strength market_conditions =
     (case market_conditions ''trend_strength'' of None \<Rightarrow> 5 / 10 | Some v \<Rightarrow> v)"

text \<open>
  \<open>RiskManager._calculate_dynamic_leverage\<close>. The three branches of the source's
  \<open>if\<close>/\<open>elif\<close> chain cover every leverage mode, so its trailing
  \<open>return base_leverage\<close> is never reached.
\<close>

definition calculate_dynamic_leverage ::
  "RiskManager \<Rightarrow> QuickOpportunity \<Rightarrow> real \<Rightarrow> (string \<rightharpoonup> real) \<Rightarrow> RiskProfile \<Rightarrow> real" where
  "calculate_dynamic_leverage rm opportunity volatility market_conditions profile =
     (let base_leverage = max_leverage profile;
          leverage_mode = leverage_modes rm (risk_level profile)
      in case leverage_mode of
           FIXED \<Rightarrow> min base_leverage 2
         | DYNAMIC \<Rightarrow>
             (let confidence_factor = confidence opportunity;
                  volatility_factor = max (5 / 10) (1 - volatility / (1 / 10));
                  market_factor = get_trend_strength market_conditions;
                  dynamic_leverage =
                    base_leverage * confidence_factor * volatility_factor * market_factor
              in min dynamic_leverage base_leverage)
         | ADAPTIVE \<Rightarrow>
             (let trend_factor = get_trend_strength market_conditions;
                  volume_factor = min 1 (volume_24h (pair opportunity) / 10000000);
                  adaptive_leverage =
                    base_leverage * (5 / 10 + trend_factor * (3 / 10) + volume_factor * (2 / 10))
              in min adaptive_leverage base_leverage))"

text \<open>
  \<open>RiskManager._calculate_base_position_size\<close>. The function divides by a
  value of the caller in the first two branches: \<open>avg_win = opportunity.risk_reward_ratio\<close>
  and \<open>1 + opportunity.volatility_score\<close>. \<open>kelly_fraction_raw\<close> is the value of the
  local variable \<open>kelly_fraction\<close> before it is clamped (\<open>avg_loss\<close> is assigned 1.0 and
  never read).
\<close>

definition kelly_fraction_raw :: "real \<Rightarrow> real \<Rightarrow> py_error + real" where
  "kelly_fraction_raw wr avg_win = py_div (wr * avg_win - (1 - wr)) avg_win"

definition calculate_base_position_size ::
  "QuickOpportunity \<Rightarrow> real \<Rightarrow> RiskProfile \<Rightarrow> py_error + real" where
  "calculate_base_position_size opportunity current_balance profile =
     (let sizing_method = position_sizing_method profile
      in if sizing_method = ''kelly_criterion'' then
           (let win_rate = confidence opportunity;
                avg_win = risk_reward_ratio opportunity
            in case kelly_fraction_raw win_rate avg_win of
                 Inl e \<Rightarrow> Inl e
               | Inr kelly_fraction \<Rightarrow>
                   Inr (current_balance * max 0 (min kelly_fraction (25 / 100))))
         else if sizing_method = ''volatility_adjusted'' then
           (case py_div 1 (1 + volatility_score opportunity) of
              Inl e \<Rightarrow> Inl e
            | Inr volatility_adjustment \<Rightarrow>
                Inr (base_position_size profile * volatility_adjustment))
         else if sizing_method = ''momentum_based'' then
           (let momentum_score =
                  (technical_score opportunity + volume_score opportunity
                   + volatility_score opportunity) / 3
            in Inr (base_position_size profile * (5 / 10 + momentum_score * (5 / 10))))
         else Inr (base_position_size profile))"

text \<open>
  \<open>opportunity.stop_loss or 0\<close>: \<open>None\<close> and \<open>0.0\<close> are both falsy, and both give 0.
\<close>

definition stop_loss_or_0 :: "real option \<Rightarrow> real" where
  "stop_loss_or_0 sl = (case sl of None \<Rightarrow> 0 | Some v \<Rightarrow> v)"

text \<open>\<open>RiskManager.calculate_position_size\<close>.\<close>

definition calculate_position_size ::
  "RiskManager \<Rightarrow> QuickOpportunity \<Rightarrow> real \<Rightarrow> real \<Rightarrow> (string \<rightharpoonup> real)
     \<Rightarrow> py_error + PositionSizing" where
  "calculate_position_size rm opportunity current_balance volatility market_conditions =
     (let profile = get_current_profile rm;
          lev = calculate_dynamic_leverage rm opportunity volatility market_conditions profile
      in case calculate_base_position_size opportunity current_balance profile of
           Inl e \<Rightarrow> Inl e
         | Inr bsize \<Rightarrow>
             (let adjusted0 = bsize * lev;
                  adjusted1 = min adjusted0 (max_position_size profile);
                  adjusted = min adjusted1 (current_balance * max_leverage profile);
                  sdist = \<bar>entry_price opportunity - stop_loss_or_0 (stop_loss opportunity)\<bar>;
                  ramount = adjusted * risk_per_trade profile;
                  pvalue = adjusted * entry_price opportunity
              in case py_div pvalue lev of
                   Inl e \<Rightarrow> Inl e
                 | Inr margin \<Rightarrow>
                     Inr \<lparr> base_size = bsize, leverage = lev, adjusted_size = adjusted,
                           risk_amount = ramount, stop_distance = sdist,
                           position_value = pvalue, margin_required = margin,
                           max_loss = ramount \<rparr>))"

text \<open>The module-level helper \<open>calculate_optimal_leverage\<close>.\<close>

fun base_leverages :: "RiskLevel \<Rightarrow> real" where
  "base_leverages CONSERVATIVE = 2"
| "base_leverages AGGRESSIVE = 5"
| "base_leverages TURBO = 10"

definition calculate_optimal_leverage :: "real \<Rightarrow> real \<Rightarrow> RiskLevel \<Rightarrow> real" where
  "calculate_optimal_leverage volatility conf lvl =
     (let base_leverage = base_leverages lvl;
          volatility_factor = max (5 / 10) (1 - volatility / (1 / 10));
          confidence_factor = conf;
          optimal_leverage = base_leverage * volatility_factor * confidence_factor
      in min optimal_leverage base_leverage)"

text \<open>
  The reason string of \<open>should_emergency_stop\<close> is a fixed message with one metric
  formatted into it; the model keeps the message kind and the metric.
\<close>

datatype stop_reason =
    EmergencyDrawdown real
  | CriticalRiskScore real
  | CriticalMarginUtilization real
  | NormalConditions

text \<open>\<open>RiskManager.should_emergency_stop\<close>.\<close>

definition should_emergency_stop :: "RiskManager \<Rightarrow> bool \<times> stop_reason" where
  "should_emergency_stop rm =
     (let profile = get_current_profile rm; m = current_metrics rm
      in if m_max_drawdown m > emergency_stop_loss profile then
           (True, EmergencyDrawdown (m_max_drawdown m))
         else if risk_score m > 9 / 10 then (True, CriticalRiskScore (risk_score m))
         else if margin_utilization m > 95 / 100 then
           (True, CriticalMarginUtilization (margin_utilization m))
         else (False, NormalConditions))"

text \<open>
  \<open>RiskManager.get_risk_recommendations\<close>. Each constructor stands for one of the five
  fixed recommendation texts of the source, in the order the source appends them.
\<close>

datatype recommendation =
    ReduceExposure
  | HighDrawdown
  | LowWinRate
  | LowDiversification
  | HighMarginUtilization

definition get_risk_recommendations :: "RiskManager \<Rightarrow> recommendation list" where
  "get_risk_recommendations rm =
     (let profile = get_current_profile rm; m = current_metrics rm
      in (if risk_score m > 7 / 10 then [ReduceExposure] else [])
       @ (if m_max_drawdown m > max_drawdown profile * (8 / 10) then [HighDrawdown] else [])
       @ (if win_rate m < 4 / 10 then [LowWinRate] else [])
       @ (if diversification_score m < 3 / 10 then [LowDiversification] else [])
       @ (if margin_utilization m > 8 / 10 then [HighMarginUtilization] else []))"

text \<open>
  \<open>RiskManager.get_risk_summary\<close>: the entries of the returned dictionary that depend on
  the safety check.
\<close>

record RiskSummary =
  summary_risk_level :: RiskLevel
  summary_metrics :: RiskMetrics
  summary_emergency_stop :: "bool \<times> stop_reason"
  summary_recommendations :: "recommendation list"

definition get_risk_summary :: "RiskManager \<Rightarrow> RiskSummary" where
  "get_risk_summary rm = \<lparr>
     summary_risk_level = current_risk_level rm,
     summary_metrics = current_metrics rm,
     summary_emergency_stop = should_emergency_stop rm,
     summary_recommendations = get_risk_recommendations rm \<rparr>"

text \<open>
  Positions and trades are dictionaries read with \<open>.get(key, default)\<close>; a record of
  optional fields keeps the keys that the risk manager reads.
\<close>

record Position =
  pos_symbol :: "string option"
  pos_position_value :: "real option"

record Trade =
  pnl :: "real option"

definition get_position_value :: "Position \<Rightarrow> real" where
  "get_position_value p = (case pos_position_value p of None \<Rightarrow> 0 | Some v \<Rightarrow> v)"

definition get_symbol :: "Position \<Rightarrow> string" where
  "get_symbol p = (case pos_symbol p of None \<Rightarrow> [] | Some s \<Rightarrow> s)"

definition get_pnl :: "Trade \<Rightarrow> real" where
  "get_pnl t = (case pnl t of None \<Rightarrow> 0 | Some v \<Rightarrow> v)"

text \<open>\<open>np.cumsum\<close> and \<open>np.maximum.accumulate\<close>, with the running value as accumulator.\<close>

fun cumsum_from :: "real \<Rightarrow> real list \<Rightarrow> real list" where
  "cumsum_from acc [] = []"
| "cumsum_from acc (x # xs) = (acc + x) # cumsum_from (acc + x) xs"

definition cumsum :: "real list \<Rightarrow> real list" where
  "cumsum xs = cumsum_from 0 xs"

fun maximum_accumulate_from :: "real \<Rightarrow> real list \<Rightarrow> real list" where
  "maximum_accumulate_from acc [] = []"
| "maximum_accumulate_from acc (x # xs) = max acc x # maximum_accumulate_from (max acc x) xs"

fun maximum_accumulate :: "real list \<Rightarrow> real list" where
  "maximum_accumulate [] = []"
| "maximum_accumulate (x # xs) = x # maximum_accumulate_from x xs"

definition np_mean :: "real list \<Rightarrow> real" where
  "np_mean xs = sum_list xs / real (length xs)"

definition np_std :: "real list \<Rightarrow> real" where
  "np_std xs = sqrt (np_mean (map (\<lambda>x. (x - np_mean xs)\<^sup>2) xs))"

fun np_min :: "real list \<Rightarrow> real" where
  "np_min [] = 0"
| "np_min [x] = x"
| "np_min (x # y # ys) = min x (np_min (y # ys))"

text \<open>
  The element-wise array division \<open>(cumulative_pnl - running_max) / (running_max + 1e-10)\<close>.
\<close>

fun drawdown_array :: "real list \<Rightarrow> real list \<Rightarrow> py_error + real list" where
  "drawdown_array (c # cs) (r # rs) =
     (if r + 1 / 10 ^ 10 = 0 then Inl NumpyNonFinite
      else case drawdown_array cs rs of
             Inl e \<Rightarrow> Inl e
           | Inr ds \<Rightarrow> Inr ((c - r) / (r + 1 / 10 ^ 10) # ds))"
| "drawdown_array _ _ = Inr []"

text \<open>
  \<open>RiskManager.update_risk_metrics\<close>. \<open>len(set(...))\<close> counts the distinct symbols.
  The history keeps the last 1000 entries. The method raises when
  \<open>current_balance * max_leverage\<close> is zero; the manager is then unchanged.
\<close>

definition update_risk_metrics ::
  "RiskManager \<Rightarrow> Position list \<Rightarrow> Trade list \<Rightarrow> real \<Rightarrow> py_error + RiskManager" where
  "update_risk_metrics rm positions trades current_balance =
     (if trades = [] then Inr rm
      else
        let total_trades = length trades;
            winning_trades = length (filter (\<lambda>t. get_pnl t > 0) trades);
            cur_exposure = sum_list (map get_position_value positions);
            tot_leverage = (if current_balance > 0 then cur_exposure / current_balance else 1);
            wrate = (if total_trades > 0 then real winning_trades / real total_trades else 0);
            gross_profit = sum_list (map get_pnl (filter (\<lambda>t. get_pnl t > 0) trades));
            gross_loss = \<bar>sum_list (map get_pnl (filter (\<lambda>t. get_pnl t < 0) trades))\<bar>;
            pfactor = (if gross_loss > 0 then gross_profit / gross_loss else 0);
            returns = map get_pnl trades;
            sharpe =
              (if length returns > 1 then
                 (let mean_return = np_mean returns; std_return = np_std returns
                  in if std_return > 0 then mean_return / std_return else 0)
               else 0);
            cumulative_pnl = cumsum returns;
            running_max = maximum_accumulate cumulative_pnl
        in case drawdown_array cumulative_pnl running_max of
             Inl e \<Rightarrow> Inl e
           | Inr drawdown \<Rightarrow>
               (let max_dd = (if length drawdown > 0 then \<bar>np_min drawdown\<bar> else 0);
                    rscore =
                      min 1 (tot_leverage * (3 / 10) + max_dd * (4 / 10) + (1 - wrate) * (3 / 10));
                    dscore = min 1 (real (length (remdups (map get_symbol positions))) / 10)
                in case py_div cur_exposure
                          (current_balance * max_leverage (get_current_profile rm)) of
                     Inl e \<Rightarrow> Inl e
                   | Inr mutil \<Rightarrow>
                       (let m = \<lparr> current_exposure = cur_exposure, total_leverage = tot_leverage,
                                  portfolio_var = 0, m_max_drawdown = max_dd,
                                  sharpe_ratio = sharpe, win_rate = wrate,
                                  profit_factor = pfactor, risk_score = rscore,
                                  margin_utilization = mutil,
                                  diversification_score = dscore \<rparr>;
                            hist = risk_history rm @ [m]
                        in Inr (rm\<lparr> current_metrics := m,
                                     risk_history :=
                                       (if length hist > 1000
                                        then drop (length hist - 1000) hist else hist) \<rparr>))))"

section \<open>ai/auto\_opportunity\_detector.py: the detection loop\<close>

text \<open>
  An order as \<open>MultiExchangeManager._execute_order\<close> takes it: symbol, side and amount.
\<close>

record Order =
  order_symbol :: string
  order_side :: string
  order_amount :: real

text \<open>
  The detector's state, as far as the loop and the safety check use it. The type
  \<open>'o\<close> is the type of the published opportunities. \<open>active_positions\<close> is a public
  list that the detector only reads, counts and clears. Three components are not
  attributes of the Python object. \<open>exchange_orders\<close> lists the orders that the detector
  has placed through its \<open>exchange_manager\<close>; no method of the detector places one.
  \<open>tasks_at_check\<close> and \<open>tasks_in_cycle\<close> describe the \<open>_detection_loop\<close> coroutines
  that \<open>start_detection\<close> has created with \<open>asyncio.create_task\<close> and that have not
  returned: those that will evaluate \<open>while self.is_running\<close> next (just created, or
  asleep at the end of an iteration), and those suspended inside the body of an
  iteration, in \<open>await self._detect_opportunities()\<close> or
  \<open>await self._enhance_opportunities(...)\<close>.
\<close>

record 'o AutoOpportunityDetector =
  is_running :: bool
  risk_manager :: RiskManager
  detected_opportunities :: "'o list"
  active_positions :: "Position list"
  total_scans :: nat
  opportunities_found :: nat
  exchange_orders :: "Order list"
  tasks_at_check :: nat
  tasks_in_cycle :: nat

text \<open>\<open>AutoOpportunityDetector.__init__\<close> with the configured risk level.\<close>

definition init_detector :: "RiskLevel \<Rightarrow> 'o AutoOpportunityDetector" where
  "init_detector lvl = \<lparr>
     is_running = False,
     risk_manager = set_risk_level lvl init_RiskManager,
     detected_opportunities = [],
     active_positions = [],
     total_scans = 0,
     opportunities_found = 0,
     exchange_orders = [],
     tasks_at_check = 0,
     tasks_in_cycle = 0 \<rparr>"

text \<open>
  \<open>start_detection\<close> has no \<open>await\<close> before it returns: the check, the assignment and
  the creation of the loop task are one step. The new task has not run yet.
\<close>

definition start_detection :: "'o AutoOpportunityDetector \<Rightarrow> 'o AutoOpportunityDetector" where
  "start_detection d =
     (if is_running d then d
      else d\<lparr>is_running := True, tasks_at_check := tasks_at_check d + 1\<rparr>)"

definition stop_detection :: "'o AutoOpportunityDetector \<Rightarrow> 'o AutoOpportunityDetector" where
  "stop_detection d = d\<lparr>is_running := False\<rparr>"

text \<open>
  \<open>_emergency_stop_all_positions\<close>: it logs, clears the list and resets the flag. The
  source says in a comment that the logic that would close the positions is not
  implemented; the method calls nothing on the exchange manager, so \<open>exchange_orders\<close>
  stays as it is.
\<close>

definition emergency_stop_all_positions ::
  "'o AutoOpportunityDetector \<Rightarrow> 'o AutoOpportunityDetector" where
  "emergency_stop_all_positions d = d\<lparr>active_positions := [], is_running := False\<rparr>"

text \<open>
  The first part of one loop iteration, which runs without suspension: a task at the
  loop head evaluates \<open>while self.is_running\<close> and returns when it is false; otherwise
  it calls \<open>should_emergency_stop\<close>, and on \<open>True\<close> it runs
  \<open>_emergency_stop_all_positions\<close> and breaks out of the loop; otherwise it enters
  \<open>await self._detect_opportunities()\<close> and is suspended inside its cycle.
\<close>

definition loop_check :: "'o AutoOpportunityDetector \<Rightarrow> 'o AutoOpportunityDetector" where
  "loop_check d =
     (if \<not> is_running d then d\<lparr>tasks_at_check := tasks_at_check d - 1\<rparr>
      else if fst (should_emergency_stop (risk_manager d)) then
        (emergency_stop_all_positions d)\<lparr>tasks_at_check := tasks_at_check d - 1\<rparr>
      else d\<lparr>tasks_at_check := tasks_at_check d - 1, tasks_in_cycle := tasks_in_cycle d + 1\<rparr>)"

text \<open>
  What the suspended part of a cycle yields is decided outside the detector (exchanges,
  news, the advisory model): it either completes with the number of opportunities the
  scan found and the filtered list, or raises, which the loop's \<open>except\<close> clause logs.
\<close>

datatype 'o cycle_outcome = CycleCompleted nat "'o list" | CycleRaised

definition update_detection_stats ::
  "nat \<Rightarrow> 'o AutoOpportunityDetector \<Rightarrow> 'o AutoOpportunityDetector" where
  "update_detection_stats found d =
     d\<lparr>total_scans := total_scans d + 1, opportunities_found := opportunities_found d + found\<rparr>"

text \<open>
  The second part of the iteration, from the resumption of the task to its next sleep:
  a completed cycle assigns \<open>self.detected_opportunities\<close> and updates the statistics,
  a raised one does neither. The task does not read \<open>is_running\<close> or the safety check
  again before it publishes; it reads \<open>is_running\<close> next at the loop head.
\<close>

definition cycle_end ::
  "'o cycle_outcome \<Rightarrow> 'o AutoOpportunityDetector \<Rightarrow> 'o AutoOpportunityDetector" where
  "cycle_end outcome d =
     (let d' = d\<lparr>tasks_in_cycle := tasks_in_cycle d - 1, tasks_at_check := tasks_at_check d + 1\<rparr>
      in case outcome of
           CycleCompleted found filtered \<Rightarrow>
             update_detection_stats found (d'\<lparr>detected_opportunities := filtered\<rparr>)
         | CycleRaised \<Rightarrow> d')"

text \<open>
  The steps that the event loop interleaves: the operator's \<open>start_detection\<close> and
  \<open>stop_detection\<close>, a loop task at the loop head running its check, a loop task inside
  its cycle resuming and finishing it, and calls on the detector's risk manager. A step
  of a loop task needs a task in the right place; without one nothing happens. A
  metrics update that raises leaves the manager unchanged; an update that leaves the
  real-number model (\<open>NumpyNonFinite\<close>) is treated the same way, which is a limit of
  the model: the Python stores the non-finite metrics.
\<close>

datatype 'o event =
    StartDetection
  | StopDetection
  | LoopChecks
  | CycleEnds "'o cycle_outcome"
  | UpdateRiskMetrics "Position list" "Trade list" real
  | SetRiskLevel RiskLevel

fun detector_step :: "'o event \<Rightarrow> 'o AutoOpportunityDetector \<Rightarrow> 'o AutoOpportunityDetector" where
  "detector_step StartDetection d = start_detection d"
| "detector_step StopDetection d = stop_detection d"
| "detector_step LoopChecks d = (if tasks_at_check d = 0 then d else loop_check d)"
| "detector_step (CycleEnds outcome) d =
     (if tasks_in_cycle d = 0 then d else cycle_end outcome d)"
| "detector_step (UpdateRiskMetrics positions trades balance) d =
     (case update_risk_metrics (risk_manager d) positions trades balance of
        Inl e \<Rightarrow> d
      | Inr rm \<Rightarrow> d\<lparr>risk_manager := rm\<rparr>)"
| "detector_step (SetRiskLevel lvl) d = d\<lparr>risk_manager := set_risk_level lvl (risk_manager d)\<rparr>"

fun run_events :: "'o event list \<Rightarrow> 'o AutoOpportunityDetector \<Rightarrow> 'o AutoOpportunityDetector" where
  "run_events [] d = d"
| "run_events (e # es) d = run_events es (detector_step e d)"

text \<open>\<open>get_detection_status\<close>: the entries that report the loop and the safety check.\<close>

record DetectionStatus =
  status_is_running :: bool
  status_active_positions :: nat
  status_total_scans :: nat
  status_risk_summary :: RiskSummary

definition get_detection_status :: "'o AutoOpportunityDetector \<Rightarrow> DetectionStatus" where
  "get_detection_status d = \<lparr>
     status_is_running = is_running d,
     status_active_positions = length (active_positions d),
     status_total_scans = total_scans d,
     status_risk_summary = get_risk_summary (risk_manager d) \<rparr>"

section \<open>scripts/advanced\_server.py: the position-size endpoint\<close>

text \<open>
  The endpoint \<open>/api/risk/calculate-position\<close> builds the opportunity below from its
  query parameters and sizes it with a Conservative manager, balance 10000, volatility
  0.02 and an empty market-conditions dictionary. \<open>base\<close> is the text of the symbol
  before \<open>USDT\<close>.
\<close>

definition api_pair_info :: "string \<Rightarrow> string \<Rightarrow> real \<Rightarrow> PairInfo" where
  "api_pair_info smb base entry =
     \<lparr> symbol = smb, exchange = ''binance'', market_type = SPOT,
       base_currency = base, quote_currency = ''USDT'', price = entry,
       volume_24h = 1000000, volume_change_24h = 5 / 100, price_change_24h = 2 / 100,
       market_cap = None, available_margin = False, pair_max_leverage = 1,
       min_order_size = 1 / 1000, tick_size = 1 / 100 \<rparr>"

definition api_opportunity ::
  "string \<Rightarrow> string \<Rightarrow> real \<Rightarrow> real \<Rightarrow> real \<Rightarrow> QuickOpportunity" where
  "api_opportunity smb base entry sl conf =
     \<lparr> pair = api_pair_info smb base entry, timeframe = H1,
       strategy = ''support_resistance'', signal = ''buy'', confidence = conf,
       entry_price = entry, stop_loss = Some sl, take_profit = Some (entry * (102 / 100)),
       risk_reward_ratio = 2, time_to_expire = 30,
       reasoning = PlainReasoning ''Calculated position size'',
       technical_score = 0, volume_score = 0, volatility_score = 0, overall_score = 0 \<rparr>"

text \<open>The request \<open>symbol=BTCUSDT, entry_price=100, stop_loss=98, confidence=0.9\<close>.\<close>

definition btc_opportunity :: QuickOpportunity where
  "btc_opportunity = api_opportunity ''BTCUSDT'' ''BTC'' 100 98 (9 / 10)"

section \<open>The safety states of the specification\<close>

text \<open>
  The source has no type of safety states: the boolean of \<open>should_emergency_stop\<close> is
  its only verdict, \<open>True\<close> with a reason for a halt and \<open>False\<close> with the message
  "Condiciones normales" otherwise. \<open>code_safety_state\<close> reads that verdict as a state.
\<close>

datatype SafetyState = Normal | Warning | Halted

definition code_safety_state :: "RiskManager \<Rightarrow> SafetyState" where
  "code_safety_state rm = (if fst (should_emergency_stop rm) then Halted else Normal)"

text \<open>
  The state machine in the words of the specification, for comparison with the code:
  Halted when drawdown exceeds \<open>emergency_stop_loss\<close>, or the risk score exceeds 0.9, or
  margin utilization exceeds 0.95; else Warning when any of the three metrics exceeds
  80% of its Halted threshold; else Normal.
\<close>

definition spec_safety_state :: "RiskProfile \<Rightarrow> RiskMetrics \<Rightarrow> SafetyState" where
  "spec_safety_state profile m =
     (if m_max_drawdown m > emergency_stop_loss profile \<or> risk_score m > 9 / 10
         \<or> margin_utilization m > 95 / 100 then Halted
      else if m_max_drawdown m > (80 / 100) * emergency_stop_loss profile
         \<or> risk_score m > (80 / 100) * (9 / 10)
         \<or> margin_utilization m > (80 / 100) * (95 / 100) then Warning
      else Normal)"

text \<open>
  The close-all-positions side effect in the words of the specification, for comparison
  with the code: for every position that was open, an order on its symbol has been
  placed.
\<close>

definition spec_positions_closed :: "Position list \<Rightarrow> Order list \<Rightarrow> bool" where
  "spec_positions_closed positions orders =
     list_all (\<lambda>p. list_ex (\<lambda>ord. order_symbol ord = get_symbol p) orders) positions"

section \<open>ai/autopilot\_engine.py: signal consolidation\<close>

text \<open>
  \<open>str.upper()\<close> on the ASCII letters; other characters are unchanged (strategy names
  are ASCII identifiers).
\<close>

definition char_upper :: "char \<Rightarrow> char" where
  "char_upper c =
     (case map_of (zip ''abcdefghijklmnopqrstuvwxyz'' ''ABCDEFGHIJKLMNOPQRSTUVWXYZ'') c of
        Some u \<Rightarrow> u | None \<Rightarrow> c)"

definition str_upper :: "string \<Rightarrow> string" where
  "str_upper s = map char_upper s"

text \<open>The members of the enum \<open>StrategyWeight\<close> and their values.\<close>

definition StrategyWeight :: "(string \<times> real) list" where
  "StrategyWeight =
     [(''SUPPORT_RESISTANCE'', 20 / 100),
      (''CHANNEL_ANALYSIS'', 15 / 100),
      (''ICT_TECHNIQUES'', 25 / 100),
      (''FIBONACCI'', 15 / 100),
      (''SESSION_ANALYSIS'', 15 / 100),
      (''SPREAD_ANALYSIS'', 10 / 100)]"

text \<open>
  \<open>getattr(StrategyWeight, strategy.upper().replace('_', '_')).value\<close>: the
  replacement is the identity, and a name that is no member raises \<open>AttributeError\<close>.
\<close>

definition strategy_weight :: "string \<Rightarrow> py_error + real" where
  "strategy_weight strategy_name =
     (case map_of StrategyWeight (str_upper strategy_name) of
        None \<Rightarrow> Inl (AttributeError (str_upper strategy_name))
      | Some w \<Rightarrow> Inr w)"

text \<open>
  A level of the support/resistance analyzer, and the dictionary that one analyzer
  returns for one symbol: the keys that consolidation reads, each optional as in a
  dictionary. An analyzer that failed returns a dictionary with the key \<open>error\<close>.
\<close>

record Level =
  level_type :: string
  level_price :: real

record SignalData =
  sd_error :: "string option"
  sd_confidence :: "real option"
  sd_action :: "string option"
  sd_levels :: "Level list option"

definition get_confidence :: "SignalData \<Rightarrow> real" where
  "get_confidence sd = (case sd_confidence sd of None \<Rightarrow> 0 | Some c \<Rightarrow> c)"

definition get_action :: "SignalData \<Rightarrow> string" where
  "get_action sd = (case sd_action sd of None \<Rightarrow> ''hold'' | Some a \<Rightarrow> a)"

definition get_levels :: "SignalData \<Rightarrow> Level list" where
  "get_levels sd = (case sd_levels sd of None \<Rightarrow> [] | Some ls \<Rightarrow> ls)"

text \<open>
  \<open>analysis_results\<close> maps a strategy name to a dictionary from symbols to signal data;
  \<open>market_data\<close> maps a symbol to its data frame, of which consolidation reads the
  \<open>close\<close> column. Dictionaries are association lists in insertion order.
\<close>

type_synonym AnalysisResults = "(string \<times> (string \<times> SignalData) list) list"

type_synonym MarketData = "(string \<times> real list) list"

text \<open>
  The texts that consolidation writes into \<open>reasoning\<close>, each with the values that the
  source formats into it: the consolidated signal with the strategies whose confidence
  exceeds 0.5, the same without such a strategy, the text for no valid signal, and the
  text of the \<open>except\<close> branch.
\<close>

datatype reasoning_text =
    ReasoningStrategies string real "(string \<times> string \<times> real) list"
  | ReasoningConsolidated string real
  | ReasoningNoValidSignals
  | ReasoningError py_error

record TradingSignal =
  ts_timestamp :: nat
  ts_symbol :: string
  ts_action :: string
  ts_confidence :: real
  ts_price :: real
  ts_stop_loss :: "real option"
  ts_take_profit :: "real option"
  ts_position_size :: real
  ts_reasoning :: reasoning_text
  ts_strategy_contributions :: "(string \<times> real) list"
  ts_risk_score :: real
  ts_ai_analysis :: "(string \<times> string) list option"

text \<open>The fields of \<open>AutopilotConfig\<close> that consolidation reads, with their defaults.\<close>

record AutopilotConfig =
  cfg_min_confidence_threshold :: real
  cfg_max_position_size :: real
  cfg_risk_per_trade :: real

definition default_AutopilotConfig :: AutopilotConfig where
  "default_AutopilotConfig = \<lparr>
     cfg_min_confidence_threshold = 7 / 10,
     cfg_max_position_size = 1000,
     cfg_risk_per_trade = 2 / 100 \<rparr>"

text \<open>One entry of the local list \<open>signals\<close>.\<close>

record WeightedSignal =
  ws_action :: string
  ws_confidence :: real
  ws_weight :: real

text \<open>
  The loop of \<open>_consolidate_signals\<close> over \<open>analysis_results.items()\<close>: it returns the
  list \<open>signals\<close> and the dictionary \<open>strategy_contributions\<close>, or the exception of the
  first strategy whose weight lookup fails.
\<close>

fun collect_signals ::
  "string \<Rightarrow> AnalysisResults \<Rightarrow> py_error + (WeightedSignal list \<times> (string \<times> real) list)" where
  "collect_signals smb [] = Inr ([], [])"
| "collect_signals smb ((strategy_name, results) # rest) =
     (case map_of results smb of
        None \<Rightarrow> collect_signals smb rest
      | Some signal_data \<Rightarrow>
          if sd_error signal_data \<noteq> None then collect_signals smb rest
          else
            (case strategy_weight strategy_name of
               Inl e \<Rightarrow> Inl e
             | Inr weight \<Rightarrow>
                 (let weighted_confidence = get_confidence signal_data * weight
                  in case collect_signals smb rest of
                       Inl e \<Rightarrow> Inl e
                     | Inr (signals, contributions) \<Rightarrow>
                         Inr (\<lparr> ws_action = get_action signal_data,
                                 ws_confidence = weighted_confidence,
                                 ws_weight = weight \<rparr> # signals,
                              (strategy_name, weighted_confidence) # contributions))))"

text \<open>\<open>sum(s['confidence'] for s in signals if s['action'] == a)\<close>.\<close>

definition action_weight :: "string \<Rightarrow> WeightedSignal list \<Rightarrow> real" where
  "action_weight a signals = sum_list (map ws_confidence (filter (\<lambda>s. ws_action s = a) signals))"

text \<open>
  \<open>min(levels, key=lambda x: abs(x.price - current_price))\<close> on a non-empty list: the
  first level at the least distance.
\<close>

fun closest_from :: "real \<Rightarrow> Level \<Rightarrow> Level list \<Rightarrow> Level" where
  "closest_from current_price best [] = best"
| "closest_from current_price best (l # ls) =
     closest_from current_price
       (if \<bar>level_price l - current_price\<bar> < \<bar>level_price best - current_price\<bar>
        then l else best) ls"

definition closest_level :: "real \<Rightarrow> Level list \<Rightarrow> Level option" where
  "closest_level current_price levels =
     (case levels of [] \<Rightarrow> None | l # ls \<Rightarrow> Some (closest_from current_price l ls))"

text \<open>The truth value of an optional float: \<open>None\<close> and \<open>0.0\<close> are falsy.\<close>

definition truthy :: "real option \<Rightarrow> bool" where
  "truthy v = (case v of None \<Rightarrow> False | Some x \<Rightarrow> x \<noteq> 0)"

text \<open>
  \<open>AutopilotEngine._calculate_stop_take_profit\<close>. With levels as typed records its body
  cannot raise, so its \<open>except\<close> branch is not modelled. The fixed-percentage defaults
  replace both values whenever the stop loss is missing or zero.
\<close>

definition calculate_stop_take_profit ::
  "string \<Rightarrow> real \<Rightarrow> AnalysisResults \<Rightarrow> string \<Rightarrow> real option \<times> real option" where
  "calculate_stop_take_profit action current_price analysis_results smb =
     (let levels =
            (case map_of analysis_results ''support_resistance'' of
               None \<Rightarrow> []
             | Some results \<Rightarrow>
                 (case map_of results smb of None \<Rightarrow> [] | Some sr_data \<Rightarrow> get_levels sr_data));
          support_levels = filter (\<lambda>l. level_type l = ''support'') levels;
          resistance_levels = filter (\<lambda>l. level_type l = ''resistance'') levels;
          (sl0, tp0) =
            (if levels \<noteq> [] \<and> action = ''buy'' then
               (map_option (\<lambda>l. level_price l * (995 / 1000))
                  (closest_level current_price support_levels),
                map_option (\<lambda>l. level_price l * (995 / 1000))
                  (closest_level current_price resistance_levels))
             else if levels \<noteq> [] \<and> action = ''sell'' then
               (map_option (\<lambda>l. level_price l * (1005 / 1000))
                  (closest_level current_price resistance_levels),
                map_option (\<lambda>l. level_price l * (1005 / 1000))
                  (closest_level current_price support_levels))
             else (None, None))
      in if \<not> truthy sl0 then
           (if action = ''buy'' then
              (Some (current_price * (98 / 100)), Some (current_price * (104 / 100)))
            else if action = ''sell'' then
              (Some (current_price * (102 / 100)), Some (current_price * (96 / 100)))
            else (sl0, tp0))
         else (sl0, tp0))"

text \<open>\<open>AutopilotEngine._calculate_position_size\<close>; the price is not used.\<close>

definition engine_position_size :: "AutopilotConfig \<Rightarrow> real \<Rightarrow> real \<Rightarrow> real" where
  "engine_position_size cfg conf current_price =
     (let bsize = conf * cfg_max_position_size cfg;
          risk_adjusted_size = bsize * cfg_risk_per_trade cfg
      in min risk_adjusted_size (cfg_max_position_size cfg))"

text \<open>
  \<open>AutopilotEngine._generate_reasoning\<close>: one part for each strategy with valid data for
  the symbol and a confidence above 0.5.
\<close>

fun reasoning_parts :: "string \<Rightarrow> AnalysisResults \<Rightarrow> (string \<times> string \<times> real) list" where
  "reasoning_parts smb [] = []"
| "reasoning_parts smb ((strategy_name, results) # rest) =
     (case map_of results smb of
        None \<Rightarrow> reasoning_parts smb rest
      | Some signal_data \<Rightarrow>
          if sd_error signal_data = None \<and> get_confidence signal_data > 5 / 10 then
            (strategy_name, get_action signal_data, get_confidence signal_data)
              # reasoning_parts smb rest
          else reasoning_parts smb rest)"

definition generate_reasoning :: "AnalysisResults \<Rightarrow> string \<Rightarrow> string \<Rightarrow> real \<Rightarrow> reasoning_text" where
  "generate_reasoning analysis_results smb action conf =
     (let parts = reasoning_parts smb analysis_results
      in if parts \<noteq> [] then ReasoningStrategies action conf parts
         else ReasoningConsolidated action conf)"

text \<open>
  \<open>AutopilotEngine._calculate_risk_score\<close>: the mean of \<open>1 - confidence\<close> over the data of
  every strategy and every symbol that carries no error, 0.5 when there is none.
\<close>

definition risk_factors :: "AnalysisResults \<Rightarrow> real list" where
  "risk_factors analysis_results =
     concat (map (\<lambda>(strategy_name, results).
                    map (\<lambda>(smb, d). 1 - get_confidence d)
                      (filter (\<lambda>(smb, d). sd_error d = None) results))
               analysis_results)"

definition calculate_risk_score :: "AnalysisResults \<Rightarrow> real" where
  "calculate_risk_score analysis_results =
     (let fs = risk_factors analysis_results
      in if fs \<noteq> [] then np_mean fs else 5 / 10)"

text \<open>
  The signal of the \<open>except\<close> branch of \<open>_consolidate_signals\<close>, and the one for an empty
  list of signals; the fields they do not set keep the defaults of the dataclass.
\<close>

definition error_signal :: "nat \<Rightarrow> py_error \<Rightarrow> TradingSignal" where
  "error_signal now e = \<lparr>
     ts_timestamp = now, ts_symbol = ''UNKNOWN'', ts_action = ''hold'', ts_confidence = 0,
     ts_price = 0, ts_stop_loss = None, ts_take_profit = None, ts_position_size = 1,
     ts_reasoning = ReasoningError e, ts_strategy_contributions = [],
     ts_risk_score = 5 / 10, ts_ai_analysis = None \<rparr>"

definition no_signal :: "nat \<Rightarrow> string \<Rightarrow> real \<Rightarrow> TradingSignal" where
  "no_signal now smb current_price = \<lparr>
     ts_timestamp = now, ts_symbol = smb, ts_action = ''hold'', ts_confidence = 0,
     ts_price = current_price, ts_stop_loss = None, ts_take_profit = None,
     ts_position_size = 1, ts_reasoning = ReasoningNoValidSignals,
     ts_strategy_contributions = [], ts_risk_score = 5 / 10, ts_ai_analysis = None \<rparr>"

text \<open>
  \<open>list(market_data.keys())[0]\<close> and \<open>market_data[symbol]['close'].iloc[-1]\<close>: both
  raise \<open>IndexError\<close> on an empty container.
\<close>

definition first_symbol_and_price :: "MarketData \<Rightarrow> py_error + (string \<times> real)" where
  "first_symbol_and_price market_data =
     (case market_data of
        [] \<Rightarrow> Inl IndexError
      | (smb, closes) # _ \<Rightarrow> if closes = [] then Inl IndexError else Inr (smb, last closes))"

text \<open>
  \<open>AutopilotEngine._consolidate_signals\<close>. \<open>now\<close> is the reading of \<open>datetime.now()\<close>
  at the call. Every exception of the body ends in the \<open>except\<close> branch.
\<close>

definition consolidate_signals ::
  "AutopilotConfig \<Rightarrow> nat \<Rightarrow> AnalysisResults \<Rightarrow> MarketData \<Rightarrow> TradingSignal" where
  "consolidate_signals cfg now analysis_results market_data =
     (case first_symbol_and_price market_data of
        Inl e \<Rightarrow> error_signal now e
      | Inr (smb, current_price) \<Rightarrow>
          (case collect_signals smb analysis_results of
             Inl e \<Rightarrow> error_signal now e
           | Inr (signals, strategy_contributions) \<Rightarrow>
               if signals \<noteq> [] then
                 (let buy_weight = action_weight ''buy'' signals;
                      sell_weight = action_weight ''sell'' signals;
                      hold_weight = action_weight ''hold'' signals;
                      (final_action, final_confidence) =
                        (if buy_weight > sell_weight \<and> buy_weight > hold_weight then
                           (''buy'', buy_weight)
                         else if sell_weight > buy_weight \<and> sell_weight > hold_weight then
                           (''sell'', sell_weight)
                         else (''hold'', hold_weight));
                      (sl, tp) =
                        calculate_stop_take_profit final_action current_price
                          analysis_results smb
                  in \<lparr> ts_timestamp = now, ts_symbol = smb, ts_action = final_action,
                       ts_confidence = final_confidence, ts_price = current_price,
                       ts_stop_loss = sl, ts_take_profit = tp,
                       ts_position_size =
                         engine_position_size cfg final_confidence current_price,
                       ts_reasoning =
                         generate_reasoning analysis_results smb final_action
                           final_confidence,
                       ts_strategy_contributions = strategy_contributions,
                       ts_risk_score = calculate_risk_score analysis_results,
                       ts_ai_analysis = None \<rparr>)
               else no_signal now smb current_price))"

text \<open>
  The buckets in the words of the specification, for comparison with the code: each
  result of a strategy for the symbol contributes \<open>confidence \<times> strategy_weight\<close> to the
  bucket of its action, and nothing to the other buckets; a strategy without a valid
  result for the symbol contributes nothing.
\<close>

definition spec_contribution ::
  "string \<Rightarrow> string \<Rightarrow> string \<times> (string \<times> SignalData) list \<Rightarrow> real" where
  "spec_contribution a smb entry =
     (case map_of (snd entry) smb of
        None \<Rightarrow> 0
      | Some sd \<Rightarrow>
          if sd_error sd = None \<and> get_action sd = a then
            get_confidence sd * (case strategy_weight (fst entry) of Inl e \<Rightarrow> 0 | Inr w \<Rightarrow> w)
          else 0)"

definition spec_bucket :: "string \<Rightarrow> string \<Rightarrow> AnalysisResults \<Rightarrow> real" where
  "spec_bucket a smb analysis_results =
     sum_list (map (spec_contribution a smb) analysis_results)"

section \<open>scanners/pair\_scanner.py: the scan\<close>

record ScanConfig =
  enabled_exchanges :: "string list"
  enabled_markets :: "MarketType list"
  enabled_timeframes :: "Timeframe list"
  min_volume_24h :: real
  min_price_change_24h :: real
  max_spread_percentage :: real
  min_confidence_threshold :: real
  max_pairs_per_exchange :: nat
  scan_interval :: nat
  parallel_workers :: nat

definition default_ScanConfig :: ScanConfig where
  "default_ScanConfig = \<lparr>
     enabled_exchanges = [''binance'', ''kraken'', ''kucoin'', ''okx''],
     enabled_markets = [SPOT, FUTURES],
     enabled_timeframes = [M5, M15, H1],
     min_volume_24h = 1000000,
     min_price_change_24h = 1 / 100,
     max_spread_percentage = 5 / 1000,
     min_confidence_threshold = 6 / 10,
     max_pairs_per_exchange = 100,
     scan_interval = 30,
     parallel_workers = 8 \<rparr>"

datatype log_entry = LogWarning py_error | LogError py_error

text \<open>
  The value stored under the key \<open>confidence\<close>: a number, or something that is not a
  number (\<open>None\<close>, a string), on which a comparison with a threshold raises
  \<open>TypeError\<close>.
\<close>

datatype conf_value = Number real | NotANumber

text \<open>
  The dictionary \<open>signals\<close> that an analyzer's trading-signal method returns, as far as
  the scanner reads it: the confidence if the key is present, the truth values of the
  two flags that decide the action (\<open>bounce\<close> and \<open>breakout\<close> for support and
  resistance, \<open>channel_breakout\<close> and \<open>channel_bounce\<close>, \<open>bullish_setup\<close> and
  \<open>bearish_setup\<close>, \<open>fibonacci_bounce\<close> and \<open>fibonacci_rejection\<close>,
  \<open>session_based_entry\<close> and \<open>session_breakout\<close>, \<open>spread_optimal_entry\<close> and
  \<open>liquidity_entry\<close>), and the levels that \<open>_calculate_levels\<close> reads.
\<close>

record RawSignals =
  rs_confidence :: "conf_value option"
  rs_first_flag :: bool
  rs_second_flag :: bool
  rs_stop_loss :: "real option"
  rs_take_profit :: "real option"

text \<open>What the analyzer of one strategy does when the scanner calls it on the data.\<close>

datatype analyzer_outcome = AnalyzerRaised py_error | AnalyzerSignals RawSignals

text \<open>
  The dictionary that one of the scanner's six \<open>_analyze_...\<close> methods returns: the
  keys that the scanner reads, each optional.
\<close>

record Analysis =
  an_error :: "py_error option"
  an_strategy :: "string option"
  an_confidence :: "conf_value option"
  an_action :: "string option"
  an_signals :: "RawSignals option"

text \<open>
  The methods \<open>_analyze_support_resistance\<close>, \<open>_analyze_channels\<close>, \<open>_analyze_ict\<close>,
  \<open>_analyze_fibonacci\<close>, \<open>_analyze_sessions\<close> and \<open>_analyze_spreads\<close>: each wraps its
  analyzer in \<open>try\<close>/\<open>except Exception\<close>, returns the error dictionary when the
  analyzer raises, and otherwise its strategy name, the confidence of the signals
  (0.0 when absent), the action of the two flags, and the signals. They differ in the
  strategy name and in the keys of the flags.
\<close>

definition analyze :: "string \<Rightarrow> analyzer_outcome \<Rightarrow> Analysis" where
  "analyze strategy_name outcome =
     (case outcome of
        AnalyzerRaised e \<Rightarrow>
          \<lparr> an_error = Some e, an_strategy = None, an_confidence = Some (Number 0),
            an_action = None, an_signals = None \<rparr>
      | AnalyzerSignals signals \<Rightarrow>
          \<lparr> an_error = None, an_strategy = Some strategy_name,
            an_confidence =
              Some (case rs_confidence signals of None \<Rightarrow> Number 0 | Some v \<Rightarrow> v),
            an_action =
              Some (if rs_first_flag signals then ''buy''
                    else if rs_second_flag signals then ''sell'' else ''hold''),
            an_signals = Some signals \<rparr>)"

text \<open>The six strategies, in the order of the list \<open>analysis_tasks\<close>.\<close>

definition scanner_strategies :: "string list" where
  "scanner_strategies =
     [''support_resistance'', ''channel_analysis'', ''ict_techniques'', ''fibonacci'',
      ''session_analysis'', ''spread_analysis'']"

text \<open>
  What \<open>asyncio.gather(..., return_exceptions=True)\<close> holds for one analysis inside a
  work item: an exception, or the returned dictionary. The six methods above catch
  every \<open>Exception\<close>, so they only give dictionaries; the loop below still has the
  branch for an exception.
\<close>

datatype analysis_outcome =
    AnalysisException py_error
  | AnalysisResult Analysis

text \<open>The truth value of a dictionary: it is not empty.\<close>

definition analysis_truthy :: "Analysis \<Rightarrow> bool" where
  "analysis_truthy a \<longleftrightarrow>
     an_error a \<noteq> None \<or> an_strategy a \<noteq> None \<or> an_confidence a \<noteq> None
     \<or> an_action a \<noteq> None \<or> an_signals a \<noteq> None"

text \<open>\<open>analysis.get('confidence', 0.0)\<close> and \<open>analysis.get('action', 'hold')\<close>.\<close>

definition analysis_confidence :: "Analysis \<Rightarrow> conf_value" where
  "analysis_confidence a = (case an_confidence a of None \<Rightarrow> Number 0 | Some c \<Rightarrow> c)"

definition analysis_action :: "Analysis \<Rightarrow> string" where
  "analysis_action a = (case an_action a of None \<Rightarrow> ''hold'' | Some x \<Rightarrow> x)"

text \<open>
  \<open>PairScanner._calculate_levels\<close>. Reading \<open>signals['take_profit']\<close> when only
  \<open>stop_loss\<close> is present raises \<open>KeyError\<close>, and the \<open>except\<close> branch returns
  \<open>(None, None)\<close>.
\<close>

definition calculate_levels ::
  "string \<Rightarrow> real \<Rightarrow> Analysis \<Rightarrow> real option \<times> real option" where
  "calculate_levels action current_price analysis =
     (let strategy_name = (case an_strategy analysis of None \<Rightarrow> [] | Some s \<Rightarrow> s);
          from_signals =
            (if strategy_name \<noteq> ''support_resistance'' \<and> strategy_name = ''fibonacci'' then
               (case an_signals analysis of
                  None \<Rightarrow> Inr (None, None)
                | Some signals \<Rightarrow>
                    (case rs_stop_loss signals of
                       None \<Rightarrow> Inr (None, None)
                     | Some sl \<Rightarrow>
                         (case rs_take_profit signals of
                            None \<Rightarrow> Inl (KeyError ''take_profit'')
                          | Some tp \<Rightarrow> Inr (Some sl, Some tp))))
             else Inr (None, None))
      in case from_signals of
           Inl e \<Rightarrow> (None, None)
         | Inr (sl0, tp0) \<Rightarrow>
             if \<not> truthy sl0 then
               (if action = ''buy'' then
                  (Some (current_price * (98 / 100)), Some (current_price * (104 / 100)))
                else if action = ''sell'' then
                  (Some (current_price * (102 / 100)), Some (current_price * (96 / 100)))
                else (sl0, tp0))
             else (sl0, tp0))"

text \<open>
  \<open>PairScanner._create_opportunity_from_analysis\<close>; \<open>closes\<close> is the \<open>close\<close> column of
  the data frame. A confidence that is no number raises in the comparison, and reading
  the last close of an empty frame raises; the \<open>except\<close> branch of the method returns
  \<open>None\<close> for both.
\<close>

definition create_opportunity_from_analysis ::
  "ScanConfig \<Rightarrow> PairInfo \<Rightarrow> Timeframe \<Rightarrow> MarketType \<Rightarrow> Analysis \<Rightarrow> real list
     \<Rightarrow> QuickOpportunity option" where
  "create_opportunity_from_analysis cfg pr tf mt analysis closes =
     (case analysis_confidence analysis of
        NotANumber \<Rightarrow> None
      | Number conf \<Rightarrow>
          (let action = analysis_action analysis
           in if action = ''hold'' \<or> conf < min_confidence_threshold cfg then None
              else if closes = [] then None
              else
                (let tscore = conf;
                     vscore = min (volume_24h pr / 10000000) 1;
                     volscore = min (\<bar>price_change_24h pr\<bar> / (1 / 10)) 1;
                     oscore = tscore * (5 / 10) + vscore * (3 / 10) + volscore * (2 / 10);
                     current_price = last closes;
                     (sl, tp) = calculate_levels action current_price analysis;
                     rr =
                       (if truthy sl \<and> truthy tp then
                          (let risk = (if action = ''buy'' then current_price - the sl
                                       else the sl - current_price);
                               reward = (if action = ''buy'' then the tp - current_price
                                         else current_price - the tp)
                           in if risk > 0 then reward / risk else 1)
                        else 1);
                     strategy_name =
                       (case an_strategy analysis of None \<Rightarrow> ''unknown'' | Some s \<Rightarrow> s)
                 in Some \<lparr> pair = pr, timeframe = tf, strategy = strategy_name,
                           signal = action, confidence = conf, entry_price = current_price,
                           stop_loss = sl, take_profit = tp, risk_reward_ratio = rr,
                           time_to_expire = 30,
                           reasoning =
                             ScannerReasoning strategy_name conf oscore (volume_24h pr)
                               (price_change_24h pr),
                           technical_score = tscore, volume_score = vscore,
                           volatility_score = volscore, overall_score = oscore \<rparr>)))"

text \<open>
  The loop of \<open>_scan_pair_opportunities\<close> over the gathered analysis results, with the
  list \<open>opportunities\<close> as accumulator. An exception among the results is skipped. The
  test \<open>result and result.get('confidence', 0) >= threshold\<close> raises \<open>TypeError\<close> when
  the dictionary is not empty and its confidence is no number; the exception leaves
  the loop for the \<open>except\<close> branch of the method, which logs a warning and returns
  the opportunities appended so far.
\<close>

fun scan_analysis_loop ::
  "ScanConfig \<Rightarrow> PairInfo \<Rightarrow> Timeframe \<Rightarrow> MarketType \<Rightarrow> real list
     \<Rightarrow> QuickOpportunity list \<Rightarrow> analysis_outcome list
     \<Rightarrow> QuickOpportunity list \<times> log_entry list" where
  "scan_analysis_loop cfg pr tf mt closes opportunities [] = (opportunities, [])"
| "scan_analysis_loop cfg pr tf mt closes opportunities (AnalysisException e # rest) =
     scan_analysis_loop cfg pr tf mt closes opportunities rest"
| "scan_analysis_loop cfg pr tf mt closes opportunities (AnalysisResult a # rest) =
     (if \<not> analysis_truthy a then scan_analysis_loop cfg pr tf mt closes opportunities rest
      else
        (case analysis_confidence a of
           NotANumber \<Rightarrow> (opportunities, [LogWarning TypeError])
         | Number c \<Rightarrow>
             if c \<ge> min_confidence_threshold cfg then
               (case create_opportunity_from_analysis cfg pr tf mt a closes of
                  None \<Rightarrow> scan_analysis_loop cfg pr tf mt closes opportunities rest
                | Some opportunity \<Rightarrow>
                    scan_analysis_loop cfg pr tf mt closes (opportunities @ [opportunity])
                      rest)
             else scan_analysis_loop cfg pr tf mt closes opportunities rest))"

text \<open>
  \<open>PairScanner._get_market_data\<close>, given what the fetch does (the cache of fetched
  frames is left out): a fetch that raises is caught and logged and gives \<open>None\<close>; a
  fetch without a frame for the pair's exchange gives \<open>None\<close>.
\<close>

datatype fetch_outcome = FetchRaised py_error | FetchMissing | FetchData "real list"

definition get_market_data :: "fetch_outcome \<Rightarrow> real list option \<times> log_entry list" where
  "get_market_data fetch =
     (case fetch of
        FetchRaised e \<Rightarrow> (None, [LogWarning e])
      | FetchMissing \<Rightarrow> (None, [])
      | FetchData closes \<Rightarrow> (Some closes, []))"

text \<open>
  \<open>PairScanner._scan_pair_opportunities\<close>: one scan work item, given what the fetch and
  the analyzer of each strategy do. The result is the returned list and the warnings
  the item logs. The whole body is inside \<open>try\<close>/\<open>except Exception\<close>, and both exits
  return the list: the method has no path that raises an \<open>Exception\<close>.
\<close>

definition scan_pair_opportunities ::
  "ScanConfig \<Rightarrow> PairInfo \<Rightarrow> Timeframe \<Rightarrow> MarketType \<Rightarrow> fetch_outcome
     \<Rightarrow> (string \<Rightarrow> analyzer_outcome) \<Rightarrow> QuickOpportunity list \<times> log_entry list" where
  "scan_pair_opportunities cfg pr tf mt fetch analyzers =
     (let (market_data, fetch_log) = get_market_data fetch
      in case market_data of
           None \<Rightarrow> ([], fetch_log)
         | Some closes \<Rightarrow>
             if length closes < 50 then ([], fetch_log)
             else
               (let analysis_results =
                      map (\<lambda>n. AnalysisResult (analyze n (analyzers n))) scanner_strategies;
                    (opportunities, loop_log) =
                      scan_analysis_loop cfg pr tf mt closes [] analysis_results
                in (opportunities, fetch_log @ loop_log)))"

text \<open>
  What \<open>asyncio.gather(*batch, return_exceptions=True)\<close> holds for one work item of
  \<open>scan_all_opportunities\<close>: an \<open>Exception\<close> the item raised, a cancellation
  (\<open>CancelledError\<close>, a \<open>BaseException\<close> that is no \<open>Exception\<close>), or the list the
  item returned.
\<close>

datatype task_result = Raised py_error | Cancelled | Returned "QuickOpportunity list"

text \<open>
  The inner loop of \<open>scan_all_opportunities\<close> over the results of one batch, with
  \<open>all_opportunities\<close> as accumulator: an \<open>Exception\<close> is logged as a warning; a
  non-empty list extends \<open>all_opportunities\<close>; a cancellation fails the \<open>isinstance\<close>
  test, is truthy, and \<open>extend\<close> raises \<open>TypeError\<close> on it, which ends the loop.
\<close>

fun process_batch_results ::
  "QuickOpportunity list \<Rightarrow> task_result list
     \<Rightarrow> (py_error + QuickOpportunity list) \<times> log_entry list" where
  "process_batch_results all_opportunities [] = (Inr all_opportunities, [])"
| "process_batch_results all_opportunities (Raised e # rest) =
     (let (r, logged) = process_batch_results all_opportunities rest
      in (r, LogWarning e # logged))"
| "process_batch_results all_opportunities (Cancelled # rest) = (Inl TypeError, [])"
| "process_batch_results all_opportunities (Returned l # rest) =
     process_batch_results (if l \<noteq> [] then all_opportunities @ l else all_opportunities) rest"

text \<open>
  The outer loop \<open>for i in range(0, len(scan_tasks), batch_size)\<close> with
  \<open>batch = scan_tasks[i:i + batch_size]\<close> and a batch size of 50; an exception in one
  batch ends it.
\<close>

function scan_batches ::
  "QuickOpportunity list \<Rightarrow> task_result list
     \<Rightarrow> (py_error + QuickOpportunity list) \<times> log_entry list" where
  "scan_batches all_opportunities scan_tasks =
     (if scan_tasks = [] then (Inr all_opportunities, [])
      else
        (case process_batch_results all_opportunities (take 50 scan_tasks) of
           (Inl e, logged) \<Rightarrow> (Inl e, logged)
         | (Inr all_opportunities', logged) \<Rightarrow>
             (let (r, logged') = scan_batches all_opportunities' (drop 50 scan_tasks)
              in (r, logged @ logged'))))"
  by pat_completeness auto
termination
  by (relation "measure (\<lambda>(a, ts). length ts)") auto

declare scan_batches.simps [simp del]

text \<open>\<open>PairScanner._filter_opportunities\<close>: an opportunity is kept unless one of the three
  comparisons drops it.\<close>

definition keeps_opportunity :: "ScanConfig \<Rightarrow> QuickOpportunity \<Rightarrow> bool" where
  "keeps_opportunity cfg opp \<longleftrightarrow>
     \<not> confidence opp < min_confidence_threshold cfg
     \<and> \<not> overall_score opp < 5 / 10
     \<and> \<not> risk_reward_ratio opp < 1"

definition filter_opportunities :: "ScanConfig \<Rightarrow> QuickOpportunity list \<Rightarrow> QuickOpportunity list" where
  "filter_opportunities cfg opportunities = filter (keeps_opportunity cfg) opportunities"

text \<open>
  \<open>sorted(..., key=lambda x: x.overall_score, reverse=True)\<close>: descending by score,
  stable, so opportunities of equal score keep their order.
\<close>

definition sort_by_score :: "QuickOpportunity list \<Rightarrow> QuickOpportunity list" where
  "sort_by_score opportunities = sort_key (\<lambda>x. - overall_score x) opportunities"

text \<open>
  The scanner's state that a scan writes: \<open>opportunities_cache\<close> and the two counters
  of \<open>scan_stats\<close>.
\<close>

record PairScannerState =
  opportunities_cache :: "QuickOpportunity list"
  stat_total_scanned :: nat
  stat_opportunities_found :: nat

definition init_scanner :: PairScannerState where
  "init_scanner = \<lparr> opportunities_cache = [], stat_total_scanned = 0,
     stat_opportunities_found = 0 \<rparr>"

text \<open>
  What \<open>scan_all_opportunities\<close> does with the gathered results of its work items: the
  returned list, the scanner's state afterwards, and what the method itself logs. When
  the body raises, the outer \<open>except Exception\<close> logs the error and returns the empty
  list, and neither the cache nor the statistics are written.
\<close>

record ScanOutcome =
  so_returned :: "QuickOpportunity list"
  so_scanner :: PairScannerState
  so_log :: "log_entry list"

definition scan_results ::
  "ScanConfig \<Rightarrow> PairScannerState \<Rightarrow> task_result list \<Rightarrow> ScanOutcome" where
  "scan_results cfg scanner scan_tasks =
     (case scan_batches [] scan_tasks of
        (Inl e, logged) \<Rightarrow>
          \<lparr> so_returned = [], so_scanner = scanner, so_log = logged @ [LogError e] \<rparr>
      | (Inr all_opportunities, logged) \<Rightarrow>
          (let filtered_opportunities = filter_opportunities cfg all_opportunities;
               sorted_opportunities = sort_by_score filtered_opportunities
           in \<lparr> so_returned = sorted_opportunities,
                so_scanner =
                  \<lparr> opportunities_cache = sorted_opportunities,
                    stat_total_scanned = length scan_tasks,
                    stat_opportunities_found = length sorted_opportunities \<rparr>,
                so_log = logged \<rparr>))"

text \<open>\<open>PairScanner._filter_pairs\<close> and \<open>PairScanner._is_pair_supported\<close>.\<close>

definition filter_pairs :: "ScanConfig \<Rightarrow> PairInfo list \<Rightarrow> PairInfo list" where
  "filter_pairs cfg pairs =
     filter (\<lambda>pr. \<not> volume_24h pr < min_volume_24h cfg
                 \<and> \<not> \<bar>price_change_24h pr\<bar> < min_price_change_24h cfg
                 \<and> market_type pr \<in> set (enabled_markets cfg)) pairs"

fun is_pair_supported :: "PairInfo \<Rightarrow> MarketType \<Rightarrow> bool" where
  "is_pair_supported pr SPOT = (market_type pr = SPOT)"
| "is_pair_supported pr FUTURES = (market_type pr = FUTURES \<or> available_margin pr)"
| "is_pair_supported pr MARGIN = True"

text \<open>
  The work items that \<open>scan_all_opportunities\<close> prepares from \<open>pairs_cache\<close>, in the order
  of its four nested loops.
\<close>

definition scan_task_keys ::
  "ScanConfig \<Rightarrow> (string \<times> PairInfo list) list \<Rightarrow> (PairInfo \<times> Timeframe \<times> MarketType) list" where
  "scan_task_keys cfg pairs_cache =
     concat (map (\<lambda>(exchange_name, pairs).
       if exchange_name \<notin> set (enabled_exchanges cfg) then []
       else concat (map (\<lambda>pr.
              concat (map (\<lambda>tf.
                concat (map (\<lambda>mt. if is_pair_supported pr mt then [(pr, tf, mt)] else [])
                  (enabled_markets cfg)))
                (enabled_timeframes cfg)))
              (take (max_pairs_per_exchange cfg) (filter_pairs cfg pairs))))
       pairs_cache)"

text \<open>
  What happens to one work item while \<open>gather\<close> awaits it: it runs, with the given
  behaviour of the fetch and of the analyzers, or it is cancelled. An item that runs
  always hands \<open>gather\<close> its list.
\<close>

datatype item_run = ItemRuns fetch_outcome "string \<Rightarrow> analyzer_outcome" | ItemCancelled

definition run_item ::
  "ScanConfig \<Rightarrow> (PairInfo \<times> Timeframe \<times> MarketType \<Rightarrow> item_run)
     \<Rightarrow> PairInfo \<times> Timeframe \<times> MarketType \<Rightarrow> task_result" where
  "run_item cfg env k =
     (case env k of
        ItemCancelled \<Rightarrow> Cancelled
      | ItemRuns fetch analyzers \<Rightarrow>
          (case k of (pr, tf, mt) \<Rightarrow>
             Returned (fst (scan_pair_opportunities cfg pr tf mt fetch analyzers))))"

text \<open>\<open>PairScanner.scan_all_opportunities\<close>.\<close>

definition scan_all_opportunities ::
  "ScanConfig \<Rightarrow> PairScannerState \<Rightarrow> (string \<times> PairInfo list) list
     \<Rightarrow> (PairInfo \<times> Timeframe \<times> MarketType \<Rightarrow> item_run) \<Rightarrow> ScanOutcome" where
  "scan_all_opportunities cfg scanner pairs_cache env =
     scan_results cfg scanner (map (run_item cfg env) (scan_task_keys cfg pairs_cache))"

text \<open>The list that a gathered result contributes to \<open>all_opportunities\<close>.\<close>

definition returned_opportunities :: "task_result \<Rightarrow> QuickOpportunity list" where
  "returned_opportunities t = (case t of Returned l \<Rightarrow> l | _ \<Rightarrow> [])"

text \<open>The warning that \<open>scan_all_opportunities\<close> logs for a gathered result.\<close>

definition logged_warnings :: "task_result \<Rightarrow> log_entry list" where
  "logged_warnings t = (case t of Raised e \<Rightarrow> [LogWarning e] | _ \<Rightarrow> [])"
section \<open>Inputs of the worked scenarios\<close>

text \<open>
  Abbreviations for the concrete inputs at which the theorems below are instantiated:
  two trades with a gain of 100 and a loss of 6 (a drawdown of about 0.06), the same
  with the loss that makes the drawdown exactly 0.06, one winning trade, two trades
  with a drawdown of about 0.025, and three open positions in different symbols.
\<close>

abbreviation loss_trades :: "Trade list" where
  "loss_trades \<equiv> [\<lparr>pnl = Some 100\<rparr>, \<lparr>pnl = Some (- 6)\<rparr>]"

abbreviation exact_loss_trades :: "Trade list" where
  "exact_loss_trades \<equiv> [\<lparr>pnl = Some 100\<rparr>, \<lparr>pnl = Some (- (6 + 6 / 10 ^ 12))\<rparr>]"

abbreviation gain_trades :: "Trade list" where
  "gain_trades \<equiv> [\<lparr>pnl = Some 100\<rparr>]"

abbreviation small_loss_trades :: "Trade list" where
  "small_loss_trades \<equiv> [\<lparr>pnl = Some 1000\<rparr>, \<lparr>pnl = Some (- 25)\<rparr>]"

abbreviation three_positions :: "Position list" where
  "three_positions \<equiv>
     [\<lparr>pos_symbol = Some ''BTCUSDT'', pos_position_value = Some 100\<rparr>,
      \<lparr>pos_symbol = Some ''ETHUSDT'', pos_position_value = Some 100\<rparr>,
      \<lparr>pos_symbol = Some ''BNBUSDT'', pos_position_value = Some 100\<rparr>]"

text \<open>
  A Conservative detector whose metrics were updated with the losing trades and whose
  detection was then started, the same with the exact drawdown of 0.06, and the risk
  manager of a Conservative detector after an update with the small loss.
\<close>

abbreviation detector_in_drawdown :: "unit AutoOpportunityDetector" where
  "detector_in_drawdown \<equiv>
     run_events [UpdateRiskMetrics [] loss_trades 10000, StartDetection]
       (init_detector CONSERVATIVE)"

abbreviation detector_in_exact_drawdown :: "unit AutoOpportunityDetector" where
  "detector_in_exact_drawdown \<equiv>
     run_events [UpdateRiskMetrics [] exact_loss_trades 10000, StartDetection]
       (init_detector CONSERVATIVE)"

abbreviation manager_near_threshold :: RiskManager where
  "manager_near_threshold \<equiv>
     risk_manager
       (run_events [UpdateRiskMetrics three_positions small_loss_trades 10000]
          (init_detector CONSERVATIVE :: unit AutoOpportunityDetector))"

text \<open>
  A cycle that finds and publishes one opportunity; later calls without a restart; one
  open position; and the calls that leave two loop tasks alive: detection is started
  and its task enters a cycle, detection is stopped and started again while that cycle
  is in flight, and the metrics are then updated with the losing trades.
\<close>

abbreviation one_found :: "unit cycle_outcome" where
  "one_found \<equiv> CycleCompleted 1 [()]"

abbreviation calls_without_restart :: "unit event list" where
  "calls_without_restart \<equiv>
     [UpdateRiskMetrics [] gain_trades 10000, SetRiskLevel TURBO, StopDetection,
      LoopChecks, CycleEnds one_found]"

abbreviation btc_position :: Position where
  "btc_position \<equiv> \<lparr>pos_symbol = Some ''BTCUSDT'', pos_position_value = Some 500\<rparr>"

abbreviation detector_with_two_tasks :: "unit AutoOpportunityDetector" where
  "detector_with_two_tasks \<equiv>
     run_events
       [StartDetection, LoopChecks, StopDetection, StartDetection,
        UpdateRiskMetrics [] loss_trades 10000]
       (init_detector CONSERVATIVE)"

text \<open>
  The results of the fusion scenario for BTCUSDT (support/resistance buy 0.6, ICT buy
  0.25, Fibonacci sell 0.15), results with tied buy and sell buckets, a single sell
  result, and market data with one close.
\<close>

abbreviation signal_of :: "real \<Rightarrow> string \<Rightarrow> SignalData" where
  "signal_of c a \<equiv>
     \<lparr>sd_error = None, sd_confidence = Some c, sd_action = Some a, sd_levels = None\<rparr>"

abbreviation scenario_results :: AnalysisResults where
  "scenario_results \<equiv>
     [(''support_resistance'', [(''BTCUSDT'', signal_of (6 / 10) ''buy'')]),
      (''ict_techniques'', [(''BTCUSDT'', signal_of (25 / 100) ''buy'')]),
      (''fibonacci'', [(''BTCUSDT'', signal_of (15 / 100) ''sell'')])]"



abbreviation btc_market_data :: MarketData where
  "btc_market_data \<equiv> [(''BTCUSDT'', [100])]"

text \<open>
  For the scanner: a frame of fifty closes at 100; signals that say buy with confidence
  0.9, the same with a confidence that is no number, and signals without a flag;
  analyzers of which only the ICT one says buy; analyzers whose support/resistance and
  ICT say buy while the channel analyzer, between them, gives the malformed
  confidence; a cache of one pair, which has three work items (M5, M15 and H1 on the
  spot market); and runs of these items in which the M15 item has the faulty
  analyzers, a fetch that raises, or is cancelled.
\<close>

abbreviation flat_closes :: "real list" where
  "flat_closes \<equiv> replicate 50 100"

abbreviation buy_signals :: RawSignals where
  "buy_signals \<equiv>
     \<lparr> rs_confidence = Some (Number (9 / 10)), rs_first_flag = True, rs_second_flag = False,
       rs_stop_loss = None, rs_take_profit = None \<rparr>"

abbreviation malformed_signals :: RawSignals where
  "malformed_signals \<equiv>
     \<lparr> rs_confidence = Some NotANumber, rs_first_flag = True, rs_second_flag = False,
       rs_stop_loss = None, rs_take_profit = None \<rparr>"

abbreviation hold_signals :: RawSignals where
  "hold_signals \<equiv>
     \<lparr> rs_confidence = Some (Number (9 / 10)), rs_first_flag = False, rs_second_flag = False,
       rs_stop_loss = None, rs_take_profit = None \<rparr>"

abbreviation healthy_analyzers :: "string \<Rightarrow> analyzer_outcome" where
  "healthy_analyzers \<equiv>
     (\<lambda>n. AnalyzerSignals hold_signals)(''ict_techniques'' := AnalyzerSignals buy_signals)"

abbreviation faulty_analyzers :: "string \<Rightarrow> analyzer_outcome" where
  "faulty_analyzers \<equiv>
     (\<lambda>n. AnalyzerSignals hold_signals)
       (''support_resistance'' := AnalyzerSignals buy_signals,
        ''channel_analysis'' := AnalyzerSignals malformed_signals,
        ''ict_techniques'' := AnalyzerSignals buy_signals)"

abbreviation btc_pair :: PairInfo where
  "btc_pair \<equiv> api_pair_info ''BTCUSDT'' ''BTC'' 100"

abbreviation btc_pairs_cache :: "(string \<times> PairInfo list) list" where
  "btc_pairs_cache \<equiv> [(''binance'', [btc_pair])]"

abbreviation timeout_error :: py_error where
  "timeout_error \<equiv> OtherException ''timeout''"

abbreviation all_items_healthy :: "PairInfo \<times> Timeframe \<times> MarketType \<Rightarrow> item_run" where
  "all_items_healthy \<equiv> (\<lambda>k. ItemRuns (FetchData flat_closes) healthy_analyzers)"

abbreviation m15_item_faulty :: "PairInfo \<times> Timeframe \<times> MarketType \<Rightarrow> item_run" where
  "m15_item_faulty \<equiv>
     all_items_healthy((btc_pair, M15, SPOT) := ItemRuns (FetchData flat_closes) faulty_analyzers)"

abbreviation m15_fetch_raises :: "PairInfo \<times> Timeframe \<times> MarketType \<Rightarrow> item_run" where
  "m15_fetch_raises \<equiv>
     all_items_healthy
       ((btc_pair, M15, SPOT) := ItemRuns (FetchRaised timeout_error) healthy_analyzers)"

abbreviation m15_item_cancelled :: "PairInfo \<times> Timeframe \<times> MarketType \<Rightarrow> item_run" where
  "m15_item_cancelled \<equiv> all_items_healthy((btc_pair, M15, SPOT) := ItemCancelled)"

section \<open>Theorems\<close>

section \<open>Position sizing: leverage, base size and limits\<close>

lemmas sizing_defs = calculate_position_size_def calculate_dynamic_leverage_def
  calculate_base_position_size_def kelly_fraction_raw_def py_div_def stop_loss_or_0_def
  get_current_profile_def get_trend_strength_def create_risk_manager_def set_risk_level_def
  init_RiskManager_def conservative_profile_def aggressive_profile_def turbo_profile_def
  btc_opportunity_def api_opportunity_def api_pair_info_def Let_def

lemma calculate_dynamic_leverage_le:
  "calculate_dynamic_leverage rm opp vol mc profile \<le> max_leverage profile"
  by (simp add: calculate_dynamic_leverage_def Let_def split: LeverageMode.splits)

lemma calculate_position_size_InrD:
  assumes "calculate_position_size rm opp bal vol mc = Inr ps"
  shows "\<exists>b. calculate_base_position_size opp bal (get_current_profile rm) = Inr b
    \<and> base_size ps = b
    \<and> leverage ps = calculate_dynamic_leverage rm opp vol mc (get_current_profile rm)
    \<and> adjusted_size ps = min (min (b * leverage ps) (max_position_size (get_current_profile rm)))
          (bal * max_leverage (get_current_profile rm))
    \<and> leverage ps \<noteq> 0"
  using assms unfolding calculate_position_size_def Let_def py_div_def
  by (auto split: sum.splits if_splits)

lemma calculate_position_size_Inl:
  "calculate_position_size rm opp bal vol mc = Inl e \<Longrightarrow> e = ZeroDivisionError"
  unfolding calculate_position_size_def calculate_base_position_size_def kelly_fraction_raw_def
    py_div_def Let_def
  by (auto split: sum.splits if_splits)

lemma calculate_base_position_size_ok:
  assumes "risk_reward_ratio opp \<noteq> 0"
    and "position_sizing_method profile = ''volatility_adjusted'' \<longrightarrow> volatility_score opp \<noteq> - 1"
  shows "\<exists>b. calculate_base_position_size opp bal profile = Inr b"
  using assms
  unfolding calculate_base_position_size_def kelly_fraction_raw_def py_div_def Let_def
  by (auto split: sum.splits if_splits)

lemma kelly_clamp_bounds:
  "0 \<le> max 0 (min f (25 / 100 :: real)) \<and> max 0 (min f (25 / 100 :: real)) \<le> 25 / 100"
  by auto

lemma btc_aggressive_sizing:
  "calculate_position_size (create_risk_manager AGGRESSIVE) btc_opportunity 10000 (2 / 100) Map.empty
    = Inr \<lparr> base_size = 2000, leverage = 18 / 10, adjusted_size = 3600, risk_amount = 90,
            stop_distance = 2, position_value = 360000, margin_required = 200000,
            max_loss = 90 \<rparr>"
  by (simp add: sizing_defs)

lemma btc_turbo_sizing:
  "calculate_position_size (create_risk_manager TURBO) btc_opportunity 10000 (2 / 100) Map.empty
    = Inr \<lparr> base_size = 2500, leverage = 67 / 10, adjusted_size = 16750,
            risk_amount = 1675 / 2, stop_distance = 2, position_value = 1675000,
            margin_required = 250000, max_loss = 1675 / 2 \<rparr>"
  by (simp add: sizing_defs)

lemma turbo_manager_profile:
  "get_current_profile (create_risk_manager TURBO) = turbo_profile"
  by (simp add: get_current_profile_def create_risk_manager_def set_risk_level_def
      init_RiskManager_def)

text \<open>
  Claim C1. For every manager, profile, opportunity, volatility and market-conditions
  map, the leverage that \<open>_calculate_dynamic_leverage\<close> computes is at most the
  profile's \<open>max_leverage\<close>, whichever of the three modes the profile's level selects;
  so the \<open>leverage\<close> field of every \<open>PositionSizing\<close> that \<open>calculate_position_size\<close>
  returns is at most the current profile's \<open>max_leverage\<close>; and
  \<open>calculate_optimal_leverage\<close> stays below the maximum leverage of the predefined
  profile of its level. No bound on confidence or volatility is needed.
\<close>

theorem leverage_at_most_max_leverage:
  "calculate_dynamic_leverage rm opp vol mc profile \<le> max_leverage profile
   \<and> (\<forall>ps. calculate_position_size rm opp bal vol mc = Inr ps
          \<longrightarrow> leverage ps \<le> max_leverage (get_current_profile rm))
   \<and> calculate_optimal_leverage vol c lvl \<le> max_leverage (create_risk_profiles lvl)"
proof (intro conjI allI impI)
  show "calculate_dynamic_leverage rm opp vol mc profile \<le> max_leverage profile"
    by (rule calculate_dynamic_leverage_le)
next
  fix ps assume "calculate_position_size rm opp bal vol mc = Inr ps"
  from calculate_position_size_InrD[OF this]
  show "leverage ps \<le> max_leverage (get_current_profile rm)"
    by (auto simp: calculate_dynamic_leverage_le)
next
  show "calculate_optimal_leverage vol c lvl \<le> max_leverage (create_risk_profiles lvl)"
    by (cases lvl) (simp_all add: calculate_optimal_leverage_def Let_def
        conservative_profile_def aggressive_profile_def turbo_profile_def)
qed

theorem leverage_at_most_max_leverage_witness:
  "calculate_position_size (create_risk_manager AGGRESSIVE) btc_opportunity 10000 (2 / 100)
     Map.empty
     = Inr \<lparr> base_size = 2000, leverage = 18 / 10, adjusted_size = 3600, risk_amount = 90,
             stop_distance = 2, position_value = 360000, margin_required = 200000,
             max_loss = 90 \<rparr>
   \<and> leverage \<lparr> base_size = 2000, leverage = 18 / 10, adjusted_size = 3600, risk_amount = 90,
                stop_distance = 2, position_value = 360000, margin_required = 200000,
                max_loss = 90 \<rparr>
       \<le> max_leverage (get_current_profile (create_risk_manager AGGRESSIVE))"
proof -
  note h = btc_aggressive_sizing
  from leverage_at_most_max_leverage[where rm = "create_risk_manager AGGRESSIVE"
      and opp = btc_opportunity and bal = 10000 and vol = "2 / 100" and mc = Map.empty] h
  show ?thesis by blast
qed

text \<open>
  Claim C2. Whenever \<open>calculate_position_size\<close> returns a \<open>PositionSizing\<close>, its
  \<open>adjusted_size\<close> is the minimum of \<open>base_size \<times> leverage\<close>, the profile's
  \<open>max_position_size\<close> and \<open>balance \<times> max_leverage\<close>, and so it is at most
  \<open>min(max_position_size, balance \<times> max_leverage)\<close>.
\<close>

theorem adjusted_size_is_min_of_three:
  assumes "calculate_position_size rm opp bal vol mc = Inr ps"
  shows "adjusted_size ps =
           min (min (base_size ps * leverage ps) (max_position_size (get_current_profile rm)))
               (bal * max_leverage (get_current_profile rm))
         \<and> adjusted_size ps
             \<le> min (max_position_size (get_current_profile rm))
                   (bal * max_leverage (get_current_profile rm))"
  using calculate_position_size_InrD[OF assms] by auto

theorem adjusted_size_is_min_of_three_witness:
  "calculate_position_size (create_risk_manager TURBO) btc_opportunity 10000 (2 / 100) Map.empty
     = Inr \<lparr> base_size = 2500, leverage = 67 / 10, adjusted_size = 16750,
             risk_amount = 1675 / 2, stop_distance = 2, position_value = 1675000,
             margin_required = 250000, max_loss = 1675 / 2 \<rparr>
   \<and> (16750 :: real) = min (min (2500 * (67 / 10)) (max_position_size turbo_profile))
                           (10000 * max_leverage turbo_profile)
   \<and> (16750 :: real) \<le> min (max_position_size turbo_profile) (10000 * max_leverage turbo_profile)"
proof -
  note h = btc_turbo_sizing
  from adjusted_size_is_min_of_three[OF h] h show ?thesis
    by (simp add: turbo_manager_profile)
qed

text \<open>
  Claim C7. Under the \<open>kelly_criterion\<close> method and a nonzero risk/reward ratio \<open>b\<close>,
  the base position size is \<open>balance \<times> f'\<close>, where \<open>f'\<close> is
  \<open>f = (p\<cdot>b - (1 - p)) / b\<close> with \<open>p\<close> the confidence, clamped to the interval from 0 to
  0.25. With the Conservative profile, confidence 0.9 and risk/reward 2, \<open>f\<close> is 0.85
  and is clamped to 0.25.
\<close>

theorem kelly_base_size:
  "(position_sizing_method profile = ''kelly_criterion'' \<and> risk_reward_ratio opp \<noteq> 0 \<longrightarrow>
      (\<exists>f. kelly_fraction_raw (confidence opp) (risk_reward_ratio opp) = Inr f
         \<and> f = (confidence opp * risk_reward_ratio opp - (1 - confidence opp))
               / risk_reward_ratio opp
         \<and> calculate_base_position_size opp bal profile = Inr (bal * max 0 (min f (25 / 100)))
         \<and> 0 \<le> max 0 (min f (25 / 100)) \<and> max 0 (min f (25 / 100)) \<le> 25 / 100))
   \<and> kelly_fraction_raw (9 / 10) 2 = Inr (85 / 100)
   \<and> max 0 (min (85 / 100) (25 / 100)) = (25 / 100 :: real)
   \<and> calculate_base_position_size (opp\<lparr>confidence := 9 / 10, risk_reward_ratio := 2\<rparr>) bal
        conservative_profile = Inr (bal * (25 / 100))"
proof (intro conjI impI)
  assume a: "position_sizing_method profile = ''kelly_criterion'' \<and> risk_reward_ratio opp \<noteq> 0"
  let ?f = "(confidence opp * risk_reward_ratio opp - (1 - confidence opp))
              / risk_reward_ratio opp"
  have 1: "kelly_fraction_raw (confidence opp) (risk_reward_ratio opp) = Inr ?f"
    using a by (simp add: kelly_fraction_raw_def py_div_def)
  have 2: "calculate_base_position_size opp bal profile = Inr (bal * max 0 (min ?f (25 / 100)))"
    using a 1 by (simp add: calculate_base_position_size_def Let_def)
  show "\<exists>f. kelly_fraction_raw (confidence opp) (risk_reward_ratio opp) = Inr f
         \<and> f = (confidence opp * risk_reward_ratio opp - (1 - confidence opp))
               / risk_reward_ratio opp
         \<and> calculate_base_position_size opp bal profile = Inr (bal * max 0 (min f (25 / 100)))
         \<and> 0 \<le> max 0 (min f (25 / 100)) \<and> max 0 (min f (25 / 100)) \<le> 25 / 100"
    using 1 2 kelly_clamp_bounds[of ?f] by blast
next
  show "kelly_fraction_raw (9 / 10) 2 = Inr (85 / 100)"
    by (simp add: kelly_fraction_raw_def py_div_def)
next
  show "max 0 (min (85 / 100) (25 / 100)) = (25 / 100 :: real)" by simp
next
  show "calculate_base_position_size (opp\<lparr>confidence := 9 / 10, risk_reward_ratio := 2\<rparr>) bal
        conservative_profile = Inr (bal * (25 / 100))"
    by (simp add: calculate_base_position_size_def kelly_fraction_raw_def py_div_def Let_def
      conservative_profile_def)
qed

theorem kelly_base_size_witness:
  "position_sizing_method conservative_profile = ''kelly_criterion''
   \<and> risk_reward_ratio btc_opportunity \<noteq> 0
   \<and> kelly_fraction_raw (confidence btc_opportunity) (risk_reward_ratio btc_opportunity)
       = Inr (85 / 100)
   \<and> calculate_base_position_size btc_opportunity 10000 conservative_profile = Inr 2500"
  using kelly_base_size[where profile = conservative_profile and opp = btc_opportunity
      and bal = 10000]
  by (simp add: conservative_profile_def btc_opportunity_def api_opportunity_def
      kelly_fraction_raw_def py_div_def)

text \<open>
  Claim C10, as stated, fails: \<open>calculate_position_size\<close> has a third unguarded
  division, \<open>1 / (1 + opportunity.volatility_score)\<close> in the \<open>volatility_adjusted\<close>
  method. With the Aggressive profile and \<open>volatility_score = -1\<close> the risk/reward
  ratio and the computed leverage are both nonzero, and the call still raises
  \<open>ZeroDivisionError\<close>.
\<close>

theorem third_division_counterexample:
  "risk_reward_ratio (btc_opportunity\<lparr>volatility_score := - 1\<rparr>) \<noteq> 0
   \<and> calculate_dynamic_leverage (create_risk_manager AGGRESSIVE)
        (btc_opportunity\<lparr>volatility_score := - 1\<rparr>) (2 / 100) Map.empty
        (get_current_profile (create_risk_manager AGGRESSIVE)) \<noteq> 0
   \<and> calculate_position_size (create_risk_manager AGGRESSIVE)
        (btc_opportunity\<lparr>volatility_score := - 1\<rparr>) 10000 (2 / 100) Map.empty
       = Inl ZeroDivisionError"
  by (simp add: sizing_defs)

text \<open>
  Claim C10, amended. \<open>calculate_position_size\<close> has three unguarded divisions: by
  \<open>risk_reward_ratio\<close> (Kelly method), by \<open>1 + volatility_score\<close> (volatility-adjusted
  method) and by the computed leverage. For every call in which the risk/reward ratio is
  nonzero, the volatility score is not \<open>-1\<close> under the volatility-adjusted method, and
  the computed leverage is nonzero, the function returns a \<open>PositionSizing\<close>; the only
  error it can raise is \<open>ZeroDivisionError\<close>. In dynamic mode with a non-negative
  \<open>max_leverage\<close>, a nonzero leverage requires a nonzero confidence and a nonzero trend
  strength. Outside the precondition the division by zero is reached with the
  Aggressive profile and confidence 0, and with the Conservative profile and
  risk/reward ratio 0.
\<close>

theorem position_size_divisions:
  "(risk_reward_ratio opp \<noteq> 0
     \<and> (position_sizing_method (get_current_profile rm) = ''volatility_adjusted''
          \<longrightarrow> volatility_score opp \<noteq> - 1)
     \<and> calculate_dynamic_leverage rm opp vol mc (get_current_profile rm) \<noteq> 0
     \<longrightarrow> (\<exists>ps. calculate_position_size rm opp bal vol mc = Inr ps))
   \<and> (\<forall>e. calculate_position_size rm opp bal vol mc = Inl e \<longrightarrow> e = ZeroDivisionError)
   \<and> (leverage_modes rm (risk_level (get_current_profile rm)) = DYNAMIC
        \<and> 0 \<le> max_leverage (get_current_profile rm)
        \<and> calculate_dynamic_leverage rm opp vol mc (get_current_profile rm) \<noteq> 0
        \<longrightarrow> confidence opp \<noteq> 0 \<and> get_trend_strength mc \<noteq> 0)
   \<and> calculate_position_size (create_risk_manager AGGRESSIVE) (opp\<lparr>confidence := 0\<rparr>)
        bal vol mc = Inl ZeroDivisionError
   \<and> calculate_position_size (create_risk_manager CONSERVATIVE)
        (opp\<lparr>risk_reward_ratio := 0\<rparr>) bal vol mc = Inl ZeroDivisionError"
proof (intro conjI allI impI)
  assume a: "risk_reward_ratio opp \<noteq> 0
     \<and> (position_sizing_method (get_current_profile rm) = ''volatility_adjusted''
          \<longrightarrow> volatility_score opp \<noteq> - 1)
     \<and> calculate_dynamic_leverage rm opp vol mc (get_current_profile rm) \<noteq> 0"
  then obtain b where b: "calculate_base_position_size opp bal (get_current_profile rm) = Inr b"
    using calculate_base_position_size_ok[of opp "get_current_profile rm" bal] by blast
  show "\<exists>ps. calculate_position_size rm opp bal vol mc = Inr ps"
    using a b by (simp add: calculate_position_size_def Let_def py_div_def)
next
  fix e assume "calculate_position_size rm opp bal vol mc = Inl e"
  then show "e = ZeroDivisionError" by (rule calculate_position_size_Inl)
next
  assume a: "leverage_modes rm (risk_level (get_current_profile rm)) = DYNAMIC
        \<and> 0 \<le> max_leverage (get_current_profile rm)
        \<and> calculate_dynamic_leverage rm opp vol mc (get_current_profile rm) \<noteq> 0"
  then show "confidence opp \<noteq> 0"
    by (auto simp: calculate_dynamic_leverage_def Let_def)
  from a show "get_trend_strength mc \<noteq> 0"
    by (auto simp: calculate_dynamic_leverage_def Let_def)
next
  show "calculate_position_size (create_risk_manager AGGRESSIVE) (opp\<lparr>confidence := 0\<rparr>)
        bal vol mc = Inl ZeroDivisionError"
    by (simp add: calculate_position_size_def calculate_dynamic_leverage_def
      calculate_base_position_size_def py_div_def get_current_profile_def
      create_risk_manager_def set_risk_level_def init_RiskManager_def aggressive_profile_def
      Let_def split: sum.splits)
next
  show "calculate_position_size (create_risk_manager CONSERVATIVE)
        (opp\<lparr>risk_reward_ratio := 0\<rparr>) bal vol mc = Inl ZeroDivisionError"
    by (simp add: calculate_position_size_def
      calculate_base_position_size_def kelly_fraction_raw_def py_div_def get_current_profile_def
      create_risk_manager_def set_risk_level_def init_RiskManager_def conservative_profile_def
      Let_def)
qed

theorem position_size_divisions_witness:
  "risk_reward_ratio btc_opportunity \<noteq> 0
   \<and> position_sizing_method (get_current_profile (create_risk_manager AGGRESSIVE))
         = ''volatility_adjusted''
   \<and> volatility_score btc_opportunity \<noteq> - 1
   \<and> leverage_modes (create_risk_manager AGGRESSIVE)
        (risk_level (get_current_profile (create_risk_manager AGGRESSIVE))) = DYNAMIC
   \<and> 0 \<le> max_leverage (get_current_profile (create_risk_manager AGGRESSIVE))
   \<and> calculate_dynamic_leverage (create_risk_manager AGGRESSIVE) btc_opportunity (2 / 100)
        Map.empty (get_current_profile (create_risk_manager AGGRESSIVE)) = 18 / 10
   \<and> confidence btc_opportunity \<noteq> 0 \<and> get_trend_strength Map.empty \<noteq> 0
   \<and> calculate_position_size (create_risk_manager AGGRESSIVE) btc_opportunity 10000 (2 / 100)
        Map.empty
       = Inr \<lparr> base_size = 2000, leverage = 18 / 10, adjusted_size = 3600, risk_amount = 90,
               stop_distance = 2, position_value = 360000, margin_required = 200000,
               max_loss = 90 \<rparr>
   \<and> calculate_position_size (create_risk_manager AGGRESSIVE)
        (btc_opportunity\<lparr>confidence := 0\<rparr>) 10000 (2 / 100) Map.empty
       = Inl ZeroDivisionError"
  using position_size_divisions[where rm = "create_risk_manager AGGRESSIVE"
      and opp = btc_opportunity and bal = 10000 and vol = "2 / 100" and mc = Map.empty]
  by (simp add: sizing_defs)

section \<open>The safety check and the detection loop\<close>

lemmas metrics_defs = update_risk_metrics_def cumsum_def get_pnl_def get_position_value_def
  get_symbol_def py_div_def get_current_profile_def set_risk_level_def init_RiskManager_def
  create_risk_manager_def conservative_profile_def init_metrics_def np_mean_def Let_def

lemmas detector_defs = init_detector_def start_detection_def stop_detection_def
  emergency_stop_all_positions_def loop_check_def cycle_end_def update_detection_stats_def
  should_emergency_stop_def get_detection_status_def get_risk_summary_def

lemma should_emergency_stop_iff:
  "fst (should_emergency_stop rm) \<longleftrightarrow>
     m_max_drawdown (current_metrics rm) > emergency_stop_loss (get_current_profile rm)
     \<or> risk_score (current_metrics rm) > 9 / 10
     \<or> margin_utilization (current_metrics rm) > 95 / 100"
  by (simp add: should_emergency_stop_def Let_def)

lemma should_emergency_stop_normal:
  "\<not> fst (should_emergency_stop rm) \<Longrightarrow> should_emergency_stop rm = (False, NormalConditions)"
  by (simp add: should_emergency_stop_def Let_def split: if_splits)

text \<open>No step of the detector places an order.\<close>

lemma step_exchange_orders: "exchange_orders (detector_step e d) = exchange_orders d"
  by (cases e)
    (auto simp: start_detection_def stop_detection_def loop_check_def cycle_end_def
      emergency_stop_all_positions_def update_detection_stats_def Let_def
      split: sum.splits cycle_outcome.splits)

lemma run_exchange_orders: "exchange_orders (run_events es d) = exchange_orders d"
  by (induction es arbitrary: d) (simp_all add: step_exchange_orders)

text \<open>
  While the detector is not running, no step but \<open>start_detection\<close> sets the flag or
  moves a loop task into a cycle; a cycle in flight can end, and it alone can count a
  scan and publish.
\<close>

lemma step_stopped:
  assumes "\<not> is_running d" and "e \<noteq> StartDetection"
  shows "\<not> is_running (detector_step e d)"
    and "tasks_in_cycle (detector_step e d) \<le> tasks_in_cycle d"
    and "total_scans (detector_step e d) + tasks_in_cycle (detector_step e d)
           \<le> total_scans d + tasks_in_cycle d"
    and "active_positions (detector_step e d) = active_positions d"
    and "tasks_in_cycle d = 0 \<Longrightarrow> total_scans (detector_step e d) = total_scans d"
    and "tasks_in_cycle d = 0
           \<Longrightarrow> detected_opportunities (detector_step e d) = detected_opportunities d"
  using assms
  by (cases e;
      auto simp: stop_detection_def loop_check_def cycle_end_def update_detection_stats_def
        Let_def split: sum.splits cycle_outcome.splits)+

lemma run_stopped:
  assumes "\<not> is_running d" and "StartDetection \<notin> set es"
  shows "\<not> is_running (run_events es d)
    \<and> tasks_in_cycle (run_events es d) \<le> tasks_in_cycle d
    \<and> total_scans (run_events es d) + tasks_in_cycle (run_events es d)
         \<le> total_scans d + tasks_in_cycle d
    \<and> active_positions (run_events es d) = active_positions d
    \<and> (tasks_in_cycle d = 0 \<longrightarrow>
          total_scans (run_events es d) = total_scans d
          \<and> detected_opportunities (run_events es d) = detected_opportunities d)"
  using assms
proof (induction es arbitrary: d)
  case Nil
  then show ?case by simp
next
  case (Cons e es)
  then have ne: "e \<noteq> StartDetection" and nes: "StartDetection \<notin> set es" by auto
  note s = step_stopped[OF Cons.prems(1) ne]
  from Cons.IH[OF s(1) nes] s(2,3,4,5,6) show ?case
    by (auto simp del: detector_step.simps)
qed

lemma halting_check:
  assumes "is_running d" "0 < tasks_at_check d" "fst (should_emergency_stop (risk_manager d))"
  shows "detector_step LoopChecks d
           = d\<lparr>active_positions := [], is_running := False,
               tasks_at_check := tasks_at_check d - 1\<rparr>"
  using assms by (simp add: loop_check_def emergency_stop_all_positions_def)

text \<open>
  Claim C3 holds of the safety check and of the stop, and the code fails it in one
  point: on a halt the loop does not close the positions. \<open>should_emergency_stop\<close>
  returns \<open>True\<close> exactly when the drawdown exceeds the profile's
  \<open>emergency_stop_loss\<close>, or the risk score exceeds 0.9, or the margin utilization
  exceeds 0.95. At a running Conservative detector with a drawdown of 0.06, one loop
  task at the loop head and one open BTCUSDT position, the check returns \<open>True\<close> with
  the drawdown reason, and the halting iteration sets \<open>is_running\<close> to \<open>False\<close> and
  returns, with no loop task left at the loop head or in a cycle; but it only empties
  the list of active positions and places no order, so the position is forgotten, not
  closed. No sequence of calls on the detector places an order. The comment in
  \<open>_emergency_stop_all_positions\<close> says that the logic that closes the positions is
  still to be written there.
\<close>

theorem emergency_stop_forgets_positions:
  "(fst (should_emergency_stop rm) \<longleftrightarrow>
      m_max_drawdown (current_metrics rm) > emergency_stop_loss (get_current_profile rm)
      \<or> risk_score (current_metrics rm) > 9 / 10
      \<or> margin_utilization (current_metrics rm) > 95 / 100)
   \<and> get_current_profile (risk_manager detector_in_exact_drawdown) = conservative_profile
   \<and> m_max_drawdown (current_metrics (risk_manager detector_in_exact_drawdown)) = 6 / 100
   \<and> should_emergency_stop (risk_manager detector_in_exact_drawdown)
       = (True, EmergencyDrawdown (6 / 100))
   \<and> is_running (detector_in_exact_drawdown\<lparr>active_positions := [btc_position]\<rparr>)
   \<and> tasks_at_check (detector_in_exact_drawdown\<lparr>active_positions := [btc_position]\<rparr>) = 1
   \<and> detector_step LoopChecks
         (detector_in_exact_drawdown\<lparr>active_positions := [btc_position]\<rparr>)
       = detector_in_exact_drawdown\<lparr>active_positions := [], is_running := False,
           tasks_at_check := 0\<rparr>
   \<and> tasks_in_cycle
         (detector_step LoopChecks
           (detector_in_exact_drawdown\<lparr>active_positions := [btc_position]\<rparr>))
       = 0
   \<and> exchange_orders
         (detector_step LoopChecks
           (detector_in_exact_drawdown\<lparr>active_positions := [btc_position]\<rparr>))
       = []
   \<and> \<not> spec_positions_closed [btc_position]
        (exchange_orders
          (detector_step LoopChecks
            (detector_in_exact_drawdown\<lparr>active_positions := [btc_position]\<rparr>)))
   \<and> exchange_orders (run_events es d) = exchange_orders d"
proof -
  have i: "fst (should_emergency_stop rm) \<longleftrightarrow>
      m_max_drawdown (current_metrics rm) > emergency_stop_loss (get_current_profile rm)
      \<or> risk_score (current_metrics rm) > 9 / 10
      \<or> margin_utilization (current_metrics rm) > 95 / 100"
    by (rule should_emergency_stop_iff)
  have m: "get_current_profile (risk_manager detector_in_exact_drawdown) = conservative_profile
      \<and> m_max_drawdown (current_metrics (risk_manager detector_in_exact_drawdown)) = 6 / 100"
    by (simp add: metrics_defs detector_defs)
  then have v: "should_emergency_stop (risk_manager detector_in_exact_drawdown)
       = (True, EmergencyDrawdown (6 / 100))"
    by (simp add: should_emergency_stop_def Let_def conservative_profile_def)
  have r: "is_running (detector_in_exact_drawdown\<lparr>active_positions := [btc_position]\<rparr>)
      \<and> tasks_at_check (detector_in_exact_drawdown\<lparr>active_positions := [btc_position]\<rparr>) = 1"
    by (simp add: metrics_defs detector_defs)
  have f: "fst (should_emergency_stop
      (risk_manager (detector_in_exact_drawdown\<lparr>active_positions := [btc_position]\<rparr>)))"
    using v by simp
  have h: "detector_step LoopChecks
         (detector_in_exact_drawdown\<lparr>active_positions := [btc_position]\<rparr>)
       = detector_in_exact_drawdown\<lparr>active_positions := [], is_running := False,
           tasks_at_check := 0\<rparr>"
    using halting_check[of "detector_in_exact_drawdown\<lparr>active_positions := [btc_position]\<rparr>"]
      r f
    by simp
  have c: "tasks_in_cycle (detector_in_exact_drawdown\<lparr>active_positions := [],
        is_running := False, tasks_at_check := 0\<rparr>) = 0"
    by (simp add: metrics_defs detector_defs)
  have o: "exchange_orders (detector_in_exact_drawdown\<lparr>active_positions := [],
        is_running := False, tasks_at_check := 0\<rparr>) = []"
    by (simp add: metrics_defs detector_defs)
  have n: "\<not> spec_positions_closed [btc_position] []"
    by (simp add: spec_positions_closed_def)
  have p: "exchange_orders (run_events es d) = exchange_orders d"
    by (rule run_exchange_orders)
  show ?thesis
    unfolding h using i m v r c o n p by (simp only: simp_thms)
qed

text \<open>
  Claim C4, as stated, fails in its second half: the code keeps no safety state. After
  the loop has halted on a drawdown of about 0.06 under the Conservative profile, one
  further \<open>update_risk_metrics\<close> call with an improved trade list makes
  \<open>should_emergency_stop\<close>, and with it the status report, return to "normal
  conditions", with no restart in between.
\<close>

theorem safety_verdict_regresses_counterexample:
  "code_safety_state (risk_manager
      (run_events [LoopChecks] detector_in_drawdown)) = Halted
   \<and> status_is_running (get_detection_status
      (run_events [LoopChecks] detector_in_drawdown)) = False
   \<and> code_safety_state (risk_manager
      (run_events [LoopChecks, UpdateRiskMetrics [] gain_trades 10000]
         detector_in_drawdown)) = Normal
   \<and> summary_emergency_stop (status_risk_summary (get_detection_status
      (run_events [LoopChecks, UpdateRiskMetrics [] gain_trades 10000]
         detector_in_drawdown))) = (False, NormalConditions)"
  by (simp add: metrics_defs detector_defs code_safety_state_def)

text \<open>
  Claim C4, amended. Once a loop task has halted on the emergency check, no new cycle
  starts without an explicit \<open>start_detection\<close>: for every sequence of later calls
  that contains none (metric updates, improving or not, risk-level changes,
  \<open>stop_detection\<close>, checks of loop tasks and ends of cycles), \<open>is_running\<close> stays
  false, no further call other than \<open>start_detection\<close> moves a loop task into a
  cycle, and the list of active positions stays empty. When no cycle of another loop
  task is in flight at the halt, no scan is counted and the published list is
  unchanged; in any case the scans counted after the halt are at most the cycles in
  flight at the halt. The verdict of the safety check is not latched: it is a function
  of the current profile and the current metrics alone. An explicit
  \<open>start_detection\<close> on a stopped detector sets \<open>is_running\<close> and creates a loop task,
  which enters a cycle when the check passes.
\<close>

theorem halted_detection_stays_suspended:
  "(is_running d \<and> 0 < tasks_at_check d \<and> fst (should_emergency_stop (risk_manager d))
      \<and> StartDetection \<notin> set es \<longrightarrow>
        \<not> is_running (run_events (LoopChecks # es) d)
        \<and> tasks_in_cycle (run_events (LoopChecks # es) d) \<le> tasks_in_cycle d
        \<and> total_scans (run_events (LoopChecks # es) d)
             + tasks_in_cycle (run_events (LoopChecks # es) d)
            \<le> total_scans d + tasks_in_cycle d
        \<and> active_positions (run_events (LoopChecks # es) d) = []
        \<and> (e \<noteq> StartDetection \<longrightarrow>
              tasks_in_cycle (detector_step e (run_events (LoopChecks # es) d))
                \<le> tasks_in_cycle (run_events (LoopChecks # es) d))
        \<and> (tasks_in_cycle d = 0 \<longrightarrow>
              total_scans (run_events (LoopChecks # es) d) = total_scans d
              \<and> detected_opportunities (run_events (LoopChecks # es) d)
                  = detected_opportunities d))
   \<and> (current_metrics rm = current_metrics rm'
        \<and> get_current_profile rm = get_current_profile rm'
        \<longrightarrow> should_emergency_stop rm = should_emergency_stop rm')
   \<and> (\<not> is_running d \<longrightarrow>
        is_running (detector_step StartDetection d)
        \<and> tasks_at_check (detector_step StartDetection d) = tasks_at_check d + 1)
   \<and> (is_running d \<and> 0 < tasks_at_check d \<and> \<not> fst (should_emergency_stop (risk_manager d))
        \<longrightarrow> tasks_in_cycle (detector_step LoopChecks d) = tasks_in_cycle d + 1
          \<and> total_scans (run_events [LoopChecks, CycleEnds (CycleCompleted n l)] d)
              = total_scans d + 1
          \<and> detected_opportunities (run_events [LoopChecks, CycleEnds (CycleCompleted n l)] d)
              = l)"
proof (intro conjI impI)
  assume a: "is_running d \<and> 0 < tasks_at_check d
      \<and> fst (should_emergency_stop (risk_manager d)) \<and> StartDetection \<notin> set es"
  then have h: "detector_step LoopChecks d
          = d\<lparr>active_positions := [], is_running := False,
              tasks_at_check := tasks_at_check d - 1\<rparr>"
    using halting_check[of d] by blast
  have nr: "\<not> is_running (detector_step LoopChecks d)" unfolding h by simp
  have ns: "StartDetection \<notin> set es" using a by blast
  have r: "run_events (LoopChecks # es) d = run_events es (detector_step LoopChecks d)"
    by simp
  note s = run_stopped[OF nr ns, unfolded h]
  from s show "\<not> is_running (run_events (LoopChecks # es) d)"
    unfolding r h by simp
  from s show "tasks_in_cycle (run_events (LoopChecks # es) d) \<le> tasks_in_cycle d"
    unfolding r h by simp
  from s show "total_scans (run_events (LoopChecks # es) d)
             + tasks_in_cycle (run_events (LoopChecks # es) d)
            \<le> total_scans d + tasks_in_cycle d"
    unfolding r h by simp
  from s show "active_positions (run_events (LoopChecks # es) d) = []"
    unfolding r h by simp
  {
    assume ne: "e \<noteq> StartDetection"
    from run_stopped[OF nr ns]
    have nr': "\<not> is_running (run_events es (detector_step LoopChecks d))" by blast
    from step_stopped(2)[OF nr' ne]
    show "tasks_in_cycle (detector_step e (run_events (LoopChecks # es) d))
                \<le> tasks_in_cycle (run_events (LoopChecks # es) d)"
      unfolding r .
  }
  assume "tasks_in_cycle d = 0"
  with s show "total_scans (run_events (LoopChecks # es) d) = total_scans d"
    and "detected_opportunities (run_events (LoopChecks # es) d) = detected_opportunities d"
    unfolding r h by simp_all
next
  assume "current_metrics rm = current_metrics rm'
        \<and> get_current_profile rm = get_current_profile rm'"
  then show "should_emergency_stop rm = should_emergency_stop rm'"
    by (simp add: should_emergency_stop_def)
next
  assume "\<not> is_running d"
  then show "is_running (detector_step StartDetection d)"
    and "tasks_at_check (detector_step StartDetection d) = tasks_at_check d + 1"
    by (simp_all add: start_detection_def)
next
  assume a: "is_running d \<and> 0 < tasks_at_check d
      \<and> \<not> fst (should_emergency_stop (risk_manager d))"
  then show "tasks_in_cycle (detector_step LoopChecks d) = tasks_in_cycle d + 1"
    and "total_scans (run_events [LoopChecks, CycleEnds (CycleCompleted n l)] d)
              = total_scans d + 1"
    and "detected_opportunities (run_events [LoopChecks, CycleEnds (CycleCompleted n l)] d)
              = l"
    by (simp_all add: loop_check_def cycle_end_def update_detection_stats_def)
qed

text \<open>
  The witness takes a detector with one loop task, where nothing is counted or
  published after the halt, then a detector with a second loop task whose cycle is in
  flight at the halt and is counted and published after it, and then a restart.
\<close>

theorem halted_detection_stays_suspended_witness:
  "is_running detector_in_drawdown
   \<and> 0 < tasks_at_check detector_in_drawdown
   \<and> fst (should_emergency_stop (risk_manager detector_in_drawdown))
   \<and> StartDetection \<notin> set calls_without_restart
   \<and> tasks_in_cycle detector_in_drawdown = 0
   \<and> \<not> is_running (run_events (LoopChecks # calls_without_restart) detector_in_drawdown)
   \<and> total_scans (run_events (LoopChecks # calls_without_restart) detector_in_drawdown) = 0
   \<and> detected_opportunities
        (run_events (LoopChecks # calls_without_restart) detector_in_drawdown) = []
   \<and> LoopChecks \<noteq> (StartDetection :: unit event)
   \<and> tasks_in_cycle
        (detector_step LoopChecks
          (run_events (LoopChecks # calls_without_restart) detector_in_drawdown))
       \<le> tasks_in_cycle
           (run_events (LoopChecks # calls_without_restart) detector_in_drawdown)
   \<and> is_running detector_with_two_tasks
   \<and> tasks_at_check detector_with_two_tasks = 1
   \<and> tasks_in_cycle detector_with_two_tasks = 1
   \<and> fst (should_emergency_stop (risk_manager detector_with_two_tasks))
   \<and> \<not> is_running (run_events [LoopChecks, CycleEnds one_found] detector_with_two_tasks)
   \<and> total_scans (run_events [LoopChecks, CycleEnds one_found] detector_with_two_tasks) = 1
   \<and> detected_opportunities
        (run_events [LoopChecks, CycleEnds one_found] detector_with_two_tasks) = [()]
   \<and> \<not> is_running (init_detector CONSERVATIVE :: unit AutoOpportunityDetector)
   \<and> is_running (detector_step StartDetection
          (init_detector CONSERVATIVE :: unit AutoOpportunityDetector))
   \<and> total_scans (run_events
          (LoopChecks # calls_without_restart
           @ [StartDetection, SetRiskLevel CONSERVATIVE, LoopChecks, CycleEnds one_found])
          detector_in_drawdown) = 1"
proof -
  have d1: "is_running detector_in_drawdown \<and> 0 < tasks_at_check detector_in_drawdown
      \<and> fst (should_emergency_stop (risk_manager detector_in_drawdown))"
    by (simp add: metrics_defs detector_defs)
  have es: "StartDetection \<notin> set calls_without_restart"
    by simp
  have c0: "tasks_in_cycle detector_in_drawdown = 0" "total_scans detector_in_drawdown = 0"
    "detected_opportunities detector_in_drawdown = []"
    by (simp_all add: metrics_defs detector_defs)
  have i: "\<not> is_running (init_detector CONSERVATIVE :: unit AutoOpportunityDetector)"
    by (simp add: init_detector_def)
  have two: "is_running detector_with_two_tasks
      \<and> tasks_at_check detector_with_two_tasks = 1
      \<and> tasks_in_cycle detector_with_two_tasks = 1
      \<and> fst (should_emergency_stop (risk_manager detector_with_two_tasks))"
    by (simp add: metrics_defs detector_defs)
  have race: "total_scans
        (run_events [LoopChecks, CycleEnds one_found] detector_with_two_tasks) = 1
      \<and> detected_opportunities
        (run_events [LoopChecks, CycleEnds one_found] detector_with_two_tasks) = [()]"
    by (simp add: metrics_defs detector_defs)
  have restart: "total_scans (run_events
          (LoopChecks # calls_without_restart
           @ [StartDetection, SetRiskLevel CONSERVATIVE, LoopChecks, CycleEnds one_found])
          detector_in_drawdown) = 1"
    by (simp add: metrics_defs detector_defs)
  have le: "LoopChecks \<noteq> (StartDetection :: unit event)" by simp
  from halted_detection_stays_suspended[where d = detector_in_drawdown
      and es = calls_without_restart and e = LoopChecks] d1 es le
  have T: "tasks_in_cycle
        (detector_step LoopChecks
          (run_events (LoopChecks # calls_without_restart) detector_in_drawdown))
       \<le> tasks_in_cycle
           (run_events (LoopChecks # calls_without_restart) detector_in_drawdown)"
    by blast
  from halted_detection_stays_suspended[where d = detector_in_drawdown
      and es = calls_without_restart] d1 es c0(1)
  have A: "\<not> is_running (run_events (LoopChecks # calls_without_restart) detector_in_drawdown)"
    and B: "total_scans (run_events (LoopChecks # calls_without_restart) detector_in_drawdown)
          = total_scans detector_in_drawdown"
    and D: "detected_opportunities
          (run_events (LoopChecks # calls_without_restart) detector_in_drawdown)
          = detected_opportunities detector_in_drawdown"
    by blast+
  have B': "total_scans
      (run_events (LoopChecks # calls_without_restart) detector_in_drawdown) = 0"
    using B c0(2) by (simp only:)
  have D': "detected_opportunities
      (run_events (LoopChecks # calls_without_restart) detector_in_drawdown) = []"
    using D c0(3) by (simp only:)
  have e2: "StartDetection \<notin> set [CycleEnds one_found]" by simp
  have two': "0 < tasks_at_check detector_with_two_tasks"
    by (simp add: metrics_defs detector_defs)
  from halted_detection_stays_suspended[where d = detector_with_two_tasks
      and es = "[CycleEnds one_found]"] two two' e2
  have R: "\<not> is_running (run_events [LoopChecks, CycleEnds one_found] detector_with_two_tasks)"
    by blast
  from halted_detection_stays_suspended[where
      d = "init_detector CONSERVATIVE :: unit AutoOpportunityDetector"] i
  have S: "is_running (detector_step StartDetection
          (init_detector CONSERVATIVE :: unit AutoOpportunityDetector))"
    by blast
  show ?thesis using d1 es c0(1) A B' D' le T two race R i S restart by blast
qed

text \<open>
  Claim C6, as stated, fails: the code has no Warning state. With the Conservative
  profile and a drawdown of about 0.025, which is above 80% of the emergency threshold
  0.03, the specification's state machine says Warning, while \<open>should_emergency_stop\<close>
  reports normal conditions and \<open>get_risk_recommendations\<close> returns nothing.
\<close>

theorem warning_state_counterexample:
  "spec_safety_state (get_current_profile manager_near_threshold)
      (current_metrics manager_near_threshold) = Warning
   \<and> code_safety_state manager_near_threshold = Normal
   \<and> should_emergency_stop manager_near_threshold = (False, NormalConditions)
   \<and> get_risk_recommendations manager_near_threshold = []"
  by (simp add: metrics_defs detector_defs code_safety_state_def spec_safety_state_def
      get_risk_recommendations_def)

text \<open>
  Claim C6, amended. Whenever the Halted conditions do not hold, \<open>should_emergency_stop\<close>
  reports normal conditions, however close the metrics are to their thresholds, and the
  check never reports a Warning. Separately, \<open>get_risk_recommendations\<close> lists an
  advisory text exactly when the risk score exceeds 0.7, when the drawdown exceeds 80%
  of the profile's \<open>max_drawdown\<close>, when the win rate is below 0.4, when the
  diversification score is below 0.3, and when the margin utilization exceeds 0.8. Both
  functions only read the manager.
\<close>

theorem no_warning_state:
  "(\<not> (m_max_drawdown (current_metrics rm) > emergency_stop_loss (get_current_profile rm)
        \<or> risk_score (current_metrics rm) > 9 / 10
        \<or> margin_utilization (current_metrics rm) > 95 / 100)
      \<longrightarrow> should_emergency_stop rm = (False, NormalConditions)
          \<and> code_safety_state rm = Normal)
   \<and> code_safety_state rm \<noteq> Warning
   \<and> (ReduceExposure \<in> set (get_risk_recommendations rm)
        \<longleftrightarrow> risk_score (current_metrics rm) > 7 / 10)
   \<and> (HighDrawdown \<in> set (get_risk_recommendations rm)
        \<longleftrightarrow> m_max_drawdown (current_metrics rm)
              > max_drawdown (get_current_profile rm) * (8 / 10))
   \<and> (LowWinRate \<in> set (get_risk_recommendations rm)
        \<longleftrightarrow> win_rate (current_metrics rm) < 4 / 10)
   \<and> (LowDiversification \<in> set (get_risk_recommendations rm)
        \<longleftrightarrow> diversification_score (current_metrics rm) < 3 / 10)
   \<and> (HighMarginUtilization \<in> set (get_risk_recommendations rm)
        \<longleftrightarrow> margin_utilization (current_metrics rm) > 8 / 10)"
proof (intro conjI impI)
  assume a: "\<not> (m_max_drawdown (current_metrics rm) > emergency_stop_loss (get_current_profile rm)
        \<or> risk_score (current_metrics rm) > 9 / 10
        \<or> margin_utilization (current_metrics rm) > 95 / 100)"
  then have nf: "\<not> fst (should_emergency_stop rm)"
    by (simp add: should_emergency_stop_iff)
  then show "should_emergency_stop rm = (False, NormalConditions)"
    by (rule should_emergency_stop_normal)
  from nf show "code_safety_state rm = Normal"
    by (simp add: code_safety_state_def)
next
  show "code_safety_state rm \<noteq> Warning"
    by (simp add: code_safety_state_def)
qed (simp_all add: get_risk_recommendations_def Let_def)

theorem no_warning_state_witness:
  "\<not> (m_max_drawdown (current_metrics manager_near_threshold)
        > emergency_stop_loss (get_current_profile manager_near_threshold)
      \<or> risk_score (current_metrics manager_near_threshold) > 9 / 10
      \<or> margin_utilization (current_metrics manager_near_threshold) > 95 / 100)
   \<and> m_max_drawdown (current_metrics manager_near_threshold)
        > (80 / 100) * emergency_stop_loss (get_current_profile manager_near_threshold)
   \<and> should_emergency_stop manager_near_threshold = (False, NormalConditions)
   \<and> code_safety_state manager_near_threshold = Normal"
proof -
  have a: "\<not> (m_max_drawdown (current_metrics manager_near_threshold)
        > emergency_stop_loss (get_current_profile manager_near_threshold)
      \<or> risk_score (current_metrics manager_near_threshold) > 9 / 10
      \<or> margin_utilization (current_metrics manager_near_threshold) > 95 / 100)"
    by (simp add: metrics_defs detector_defs)
  have b: "m_max_drawdown (current_metrics manager_near_threshold)
        > (80 / 100) * emergency_stop_loss (get_current_profile manager_near_threshold)"
    by (simp add: metrics_defs detector_defs)
  from no_warning_state[where rm = manager_near_threshold] a b
  show ?thesis by blast
qed

section \<open>Signal fusion\<close>

lemmas fusion_defs = consolidate_signals_def first_symbol_and_price_def strategy_weight_def
  StrategyWeight_def str_upper_def char_upper_def action_weight_def get_confidence_def
  get_action_def get_levels_def calculate_stop_take_profit_def closest_level_def truthy_def
  engine_position_size_def generate_reasoning_def calculate_risk_score_def risk_factors_def
  np_mean_def error_signal_def no_signal_def spec_bucket_def spec_contribution_def
  default_AutopilotConfig_def Let_def




lemma consolidate_timestamp:
  "ts_timestamp (consolidate_signals cfg now ar md) = now"
  by (simp add: consolidate_signals_def error_signal_def no_signal_def Let_def
      split: sum.splits prod.splits)



text \<open>
  Claim C8, as stated, fails on one field: the consolidated signal records
  \<open>datetime.now()\<close>, so two calls on the same results and market data at different
  clock readings return signals with different timestamps.
\<close>

theorem fusion_timestamp_counterexample:
  "consolidate_signals default_AutopilotConfig 0 scenario_results btc_market_data
   \<noteq> consolidate_signals default_AutopilotConfig 1 scenario_results btc_market_data"
proof
  assume "consolidate_signals default_AutopilotConfig 0 scenario_results btc_market_data
   = consolidate_signals default_AutopilotConfig 1 scenario_results btc_market_data"
  then have "ts_timestamp
       (consolidate_signals default_AutopilotConfig 0 scenario_results btc_market_data)
   = ts_timestamp
       (consolidate_signals default_AutopilotConfig 1 scenario_results btc_market_data)"
    by (rule arg_cong)
  then show False by (simp only: consolidate_timestamp)
qed

text \<open>
  Claim C8, amended. Consolidation is deterministic up to the timestamp: two calls with
  the same configuration, strategy results and market data return signals that agree on
  every field but \<open>timestamp\<close>, which is the clock reading of each call.
\<close>

theorem fusion_deterministic_up_to_timestamp:
  "consolidate_signals cfg t2 ar md = (consolidate_signals cfg t1 ar md)\<lparr>ts_timestamp := t2\<rparr>
   \<and> ts_timestamp (consolidate_signals cfg t1 ar md) = t1"
  by (simp add: consolidate_signals_def error_signal_def no_signal_def Let_def
      split: sum.splits prod.splits)

theorem fusion_deterministic_up_to_timestamp_witness:
  "consolidate_signals default_AutopilotConfig 1 scenario_results btc_market_data
   = (consolidate_signals default_AutopilotConfig 0 scenario_results btc_market_data)
       \<lparr>ts_timestamp := 1\<rparr>
   \<and> ts_action (consolidate_signals default_AutopilotConfig 1 scenario_results
        btc_market_data) = ''buy''"
proof -
  have "ts_action (consolidate_signals default_AutopilotConfig 1 scenario_results
        btc_market_data) = ''buy''"
    by (simp add: fusion_defs)
  with fusion_deterministic_up_to_timestamp[where cfg = default_AutopilotConfig
      and ?t1.0 = 0 and ?t2.0 = 1 and ar = scenario_results and md = btc_market_data]
  show ?thesis by blast
qed

section \<open>Fault isolation in the scanner\<close>

lemma process_batch_results_append:
  "process_batch_results acc (xs @ ys)
     = (case process_batch_results acc xs of
          (Inl e, logged) \<Rightarrow> (Inl e, logged)
        | (Inr acc', logged) \<Rightarrow>
            (let (r, logged') = process_batch_results acc' ys in (r, logged @ logged')))"
proof (induction xs arbitrary: acc)
  case Nil
  then show ?case by simp
next
  case (Cons t xs)
  then show ?case
    by (cases t) (simp_all add: Let_def split: prod.splits sum.splits)
qed

text \<open>Splitting the work items into batches of 50 does not change what is collected.\<close>

lemma scan_batches_eq: "scan_batches acc ts = process_batch_results acc ts"
proof (induction acc ts rule: scan_batches.induct)
  case (1 acc ts)
  show ?case
  proof (cases "ts = []")
    case True
    then show ?thesis by (simp add: scan_batches.simps)
  next
    case False
    have split: "process_batch_results acc ts
        = process_batch_results acc (take 50 ts @ drop 50 ts)"
      by simp
    show ?thesis
    proof (cases "process_batch_results acc (take 50 ts)")
      case (Pair r logged)
      show ?thesis
      proof (cases r)
        case (Inl e)
        with Pair False show ?thesis
          by (subst scan_batches.simps, subst split, subst process_batch_results_append) simp
      next
        case (Inr acc')
        from "1.IH"[OF False Pair[symmetric] Inr]
        have ih: "scan_batches acc' (drop 50 ts) = process_batch_results acc' (drop 50 ts)" .
        with Pair Inr False show ?thesis
          by (subst scan_batches.simps, subst split, subst process_batch_results_append) simp
      qed
    qed
  qed
qed

lemma process_batch_results_no_cancel:
  "Cancelled \<notin> set ts \<Longrightarrow>
     process_batch_results acc ts
       = (Inr (acc @ concat (map returned_opportunities ts)),
          concat (map logged_warnings ts))"
proof (induction ts arbitrary: acc)
  case Nil
  then show ?case by simp
next
  case (Cons t ts)
  then show ?case
    by (cases t) (simp_all add: returned_opportunities_def logged_warnings_def)
qed

lemma process_batch_results_cancel:
  "Cancelled \<in> set ts \<Longrightarrow>
     process_batch_results acc ts
       = (Inl TypeError, concat (map logged_warnings (takeWhile (\<lambda>t. t \<noteq> Cancelled) ts)))"
proof (induction ts arbitrary: acc)
  case Nil
  then show ?case by simp
next
  case (Cons t ts)
  then show ?case
    by (cases t) (simp_all add: logged_warnings_def)
qed

lemma scan_results_no_cancel:
  assumes "Cancelled \<notin> set ts"
  shows "scan_results cfg scanner ts
     = \<lparr> so_returned =
           sort_by_score (filter_opportunities cfg (concat (map returned_opportunities ts))),
         so_scanner =
           \<lparr> opportunities_cache =
               sort_by_score
                 (filter_opportunities cfg (concat (map returned_opportunities ts))),
             stat_total_scanned = length ts,
             stat_opportunities_found =
               length (sort_by_score
                 (filter_opportunities cfg (concat (map returned_opportunities ts)))) \<rparr>,
         so_log = concat (map logged_warnings ts) \<rparr>"
  by (simp add: scan_results_def scan_batches_eq process_batch_results_no_cancel[OF assms]
      Let_def)

lemma scan_results_cancel:
  assumes "Cancelled \<in> set ts"
  shows "scan_results cfg scanner ts
     = \<lparr> so_returned = [], so_scanner = scanner,
         so_log = concat (map logged_warnings (takeWhile (\<lambda>t. t \<noteq> Cancelled) ts))
                    @ [LogError TypeError] \<rparr>"
  by (simp add: scan_results_def scan_batches_eq process_batch_results_cancel[OF assms])

lemma run_item_not_raised: "run_item cfg env k \<noteq> Raised e"
  by (simp add: run_item_def split: item_run.splits prod.splits)

lemma run_item_cancelled: "run_item cfg env k = Cancelled \<longleftrightarrow> env k = ItemCancelled"
  by (simp add: run_item_def split: item_run.splits prod.splits)

lemma analyzer_raised_skipped:
  "scan_analysis_loop cfg pr tf mt closes acc
       (as @ AnalysisResult (analyze n (AnalyzerRaised e)) # bs)
     = scan_analysis_loop cfg pr tf mt closes acc (as @ bs)"
proof (induction as arbitrary: acc)
  case Nil
  show ?case
    by (simp add: analyze_def analysis_truthy_def analysis_confidence_def
        create_opportunity_from_analysis_def analysis_action_def)
next
  case (Cons a as)
  then show ?case
    by (cases a) (simp_all split: option.splits conf_value.splits)
qed

lemma malformed_confidence_ends_loop:
  assumes "analysis_truthy a" and "analysis_confidence a = NotANumber"
  shows "snd (scan_analysis_loop cfg pr tf mt closes acc as) = [] \<Longrightarrow>
     scan_analysis_loop cfg pr tf mt closes acc (as @ AnalysisResult a # bs)
       = (fst (scan_analysis_loop cfg pr tf mt closes acc as), [LogWarning TypeError])"
proof (induction as arbitrary: acc)
  case Nil
  from assms show ?case by simp
next
  case (Cons x as)
  then show ?case
    by (cases x) (simp_all split: option.splits conf_value.splits if_splits)
qed

lemma buy_signals_opportunity:
  assumes "rs_confidence s = Some (Number c)" and "min_confidence_threshold cfg \<le> c"
    and "rs_first_flag s" and "closes \<noteq> []"
  shows "\<exists>opp. create_opportunity_from_analysis cfg pr tf mt
                 (analyze n (AnalyzerSignals s)) closes = Some opp
        \<and> pair opp = pr \<and> timeframe opp = tf \<and> strategy opp = n \<and> signal opp = ''buy''
        \<and> confidence opp = c \<and> entry_price opp = last closes"
  using assms
  by (simp add: analyze_def analysis_confidence_def create_opportunity_from_analysis_def
      analysis_action_def Let_def case_prod_unfold)

lemma buy_signals_appended:
  assumes "rs_confidence s = Some (Number c)" and "min_confidence_threshold cfg \<le> c"
    and "rs_first_flag s" and "closes \<noteq> []"
  shows "\<exists>opp. scan_analysis_loop cfg pr tf mt closes acc
            (AnalysisResult (analyze n (AnalyzerSignals s)) # rest)
          = scan_analysis_loop cfg pr tf mt closes (acc @ [opp]) rest
        \<and> pair opp = pr \<and> timeframe opp = tf \<and> strategy opp = n \<and> signal opp = ''buy''
        \<and> confidence opp = c \<and> entry_price opp = last closes"
proof -
  from buy_signals_opportunity[OF assms, of pr tf mt n]
  obtain opp where o: "create_opportunity_from_analysis cfg pr tf mt
                 (analyze n (AnalyzerSignals s)) closes = Some opp"
    and f: "pair opp = pr \<and> timeframe opp = tf \<and> strategy opp = n \<and> signal opp = ''buy''
        \<and> confidence opp = c \<and> entry_price opp = last closes"
    by blast
  have t: "analysis_truthy (analyze n (AnalyzerSignals s))"
    by (simp add: analyze_def analysis_truthy_def)
  have k: "analysis_confidence (analyze n (AnalyzerSignals s)) = Number c"
    using assms(1) by (simp add: analyze_def analysis_confidence_def)
  have "scan_analysis_loop cfg pr tf mt closes acc
            (AnalysisResult (analyze n (AnalyzerSignals s)) # rest)
          = scan_analysis_loop cfg pr tf mt closes (acc @ [opp]) rest"
    using t k o assms(2) by simp
  with f show ?thesis by blast
qed

lemmas item_defs = scan_pair_opportunities_def get_market_data_def scanner_strategies_def
  analyze_def analysis_truthy_def analysis_confidence_def analysis_action_def
  create_opportunity_from_analysis_def calculate_levels_def truthy_def
  default_ScanConfig_def
  api_pair_info_def Let_def case_prod_unfold

lemmas scan_defs = scan_all_opportunities_def scan_results_def scan_batches_eq run_item_def
  scan_task_keys_def filter_pairs_def filter_opportunities_def keeps_opportunity_def
  sort_by_score_def returned_opportunities_def logged_warnings_def init_scanner_def

text \<open>
  Claim C9, as stated, fails in its last part: a failing work item is caught and
  logged, but not always dropped. In the scan of one pair on three timeframes, the M15
  item reads a confidence that is no number from its channel analysis; the
  \<open>TypeError\<close> is caught and logged by the item itself, which then returns the
  support/resistance opportunity it had appended before, and loses the ICT opportunity
  that came after. The scan output holds this partial result between the results of
  the two other items.
\<close>

theorem failing_item_not_dropped_counterexample:
  "snd (scan_pair_opportunities default_ScanConfig btc_pair M15 SPOT (FetchData flat_closes)
          faulty_analyzers)
     = [LogWarning TypeError]
   \<and> map strategy
        (fst (scan_pair_opportunities default_ScanConfig btc_pair M15 SPOT
               (FetchData flat_closes) faulty_analyzers))
     = [''support_resistance'']
   \<and> map timeframe
        (so_returned
          (scan_all_opportunities default_ScanConfig init_scanner btc_pairs_cache
             m15_item_faulty))
     = [M5, M15, H1]
   \<and> map strategy
        (so_returned
          (scan_all_opportunities default_ScanConfig init_scanner btc_pairs_cache
             m15_item_faulty))
     = [''ict_techniques'', ''support_resistance'', ''ict_techniques'']"
  by (simp add: item_defs scan_defs)

text \<open>
  Claim C9, amended. A failure inside one of the N work items of a scan never reaches
  \<open>scan_all_opportunities\<close> as an exception: a work item that runs hands
  \<open>gather\<close> a list. A fetch that raises (a timeout, an adapter error) is caught and
  logged, and the item yields nothing. An analyzer that raises is caught by its
  wrapper and contributes nothing, and the other analyses of the item are processed
  as without it. A confidence that is no number (malformed data) raises in the item's
  own loop; the item catches and logs it and returns the opportunities it had appended
  before, so the item is not dropped, and its later analyses are lost. An analysis
  that signals buy with a confidence at or above the threshold appends an opportunity
  for the item's pair and timeframe. When no gathered result is a cancellation, the
  scan returns normally the filtered and sorted concatenation of the lists of all
  items, writes it to the cache, counts all N items as scanned, and logs a warning for
  each gathered exception; so every opportunity of an item that passes the output
  filters is in the output, whatever the other items did. A gathered cancellation,
  which is no \<open>Exception\<close>, is the one result that costs the other items their
  results: the scan logs an error and returns the empty list, and leaves the cache and
  the statistics as they were.
\<close>

theorem scan_fault_containment:
  "scan_pair_opportunities cfg pr tf mt (FetchRaised e) analyzers = ([], [LogWarning e])
   \<and> scan_pair_opportunities cfg pr tf mt (FetchData closes) analyzers
       = (if length closes < 50 then ([], [])
          else scan_analysis_loop cfg pr tf mt closes []
                 (map (\<lambda>n. AnalysisResult (analyze n (analyzers n))) scanner_strategies))
   \<and> scan_analysis_loop cfg pr tf mt closes acc
         (as @ AnalysisResult (analyze n (AnalyzerRaised e)) # bs)
       = scan_analysis_loop cfg pr tf mt closes acc (as @ bs)
   \<and> (snd (scan_analysis_loop cfg pr tf mt closes acc as) = []
        \<and> analysis_truthy a \<and> analysis_confidence a = NotANumber \<longrightarrow>
        scan_analysis_loop cfg pr tf mt closes acc (as @ AnalysisResult a # bs)
          = (fst (scan_analysis_loop cfg pr tf mt closes acc as), [LogWarning TypeError]))
   \<and> (rs_confidence s = Some (Number c) \<and> min_confidence_threshold cfg \<le> c
        \<and> rs_first_flag s \<and> closes \<noteq> [] \<longrightarrow>
        (\<exists>opp. scan_analysis_loop cfg pr tf mt closes acc
                  (AnalysisResult (analyze n (AnalyzerSignals s)) # rest)
                = scan_analysis_loop cfg pr tf mt closes (acc @ [opp]) rest
              \<and> pair opp = pr \<and> timeframe opp = tf \<and> strategy opp = n
              \<and> signal opp = ''buy'' \<and> confidence opp = c
              \<and> entry_price opp = last closes))
   \<and> run_item cfg env k \<noteq> Raised e
   \<and> (Cancelled \<notin> set ts \<longrightarrow>
        scan_results cfg scanner ts
          = \<lparr> so_returned =
                sort_by_score
                  (filter_opportunities cfg (concat (map returned_opportunities ts))),
              so_scanner =
                \<lparr> opportunities_cache =
                    sort_by_score
                      (filter_opportunities cfg (concat (map returned_opportunities ts))),
                  stat_total_scanned = length ts,
                  stat_opportunities_found =
                    length (sort_by_score
                      (filter_opportunities cfg
                        (concat (map returned_opportunities ts)))) \<rparr>,
              so_log = concat (map logged_warnings ts) \<rparr>)
   \<and> (Cancelled \<in> set ts \<longrightarrow>
        scan_results cfg scanner ts
          = \<lparr> so_returned = [], so_scanner = scanner,
              so_log = concat (map logged_warnings (takeWhile (\<lambda>t. t \<noteq> Cancelled) ts))
                         @ [LogError TypeError] \<rparr>)
   \<and> ((\<forall>j \<in> set (scan_task_keys cfg pairs_cache). env j \<noteq> ItemCancelled) \<longrightarrow>
        so_returned (scan_all_opportunities cfg scanner pairs_cache env)
          = sort_by_score
              (filter_opportunities cfg
                (concat (map (\<lambda>j. returned_opportunities (run_item cfg env j))
                           (scan_task_keys cfg pairs_cache))))
        \<and> (\<forall>j \<in> set (scan_task_keys cfg pairs_cache).
             \<forall>opp \<in> set (returned_opportunities (run_item cfg env' j)).
               env' j = env j \<and> keeps_opportunity cfg opp \<longrightarrow>
               opp \<in> set (so_returned (scan_all_opportunities cfg scanner pairs_cache env))))"
proof (intro conjI impI ballI)
  show "scan_pair_opportunities cfg pr tf mt (FetchRaised e) analyzers = ([], [LogWarning e])"
    by (simp add: scan_pair_opportunities_def get_market_data_def)
next
  show "scan_pair_opportunities cfg pr tf mt (FetchData closes) analyzers
       = (if length closes < 50 then ([], [])
          else scan_analysis_loop cfg pr tf mt closes []
                 (map (\<lambda>n. AnalysisResult (analyze n (analyzers n))) scanner_strategies))"
    by (simp add: scan_pair_opportunities_def get_market_data_def Let_def case_prod_unfold)
next
  show "scan_analysis_loop cfg pr tf mt closes acc
         (as @ AnalysisResult (analyze n (AnalyzerRaised e)) # bs)
       = scan_analysis_loop cfg pr tf mt closes acc (as @ bs)"
    by (rule analyzer_raised_skipped)
next
  assume "snd (scan_analysis_loop cfg pr tf mt closes acc as) = []
        \<and> analysis_truthy a \<and> analysis_confidence a = NotANumber"
  then show "scan_analysis_loop cfg pr tf mt closes acc (as @ AnalysisResult a # bs)
          = (fst (scan_analysis_loop cfg pr tf mt closes acc as), [LogWarning TypeError])"
    using malformed_confidence_ends_loop[of a cfg pr tf mt closes acc as bs] by blast
next
  assume "rs_confidence s = Some (Number c) \<and> min_confidence_threshold cfg \<le> c
        \<and> rs_first_flag s \<and> closes \<noteq> []"
  then show "\<exists>opp. scan_analysis_loop cfg pr tf mt closes acc
                  (AnalysisResult (analyze n (AnalyzerSignals s)) # rest)
                = scan_analysis_loop cfg pr tf mt closes (acc @ [opp]) rest
              \<and> pair opp = pr \<and> timeframe opp = tf \<and> strategy opp = n
              \<and> signal opp = ''buy'' \<and> confidence opp = c
              \<and> entry_price opp = last closes"
    using buy_signals_appended[of s c cfg closes pr tf mt acc n rest] by blast
next
  show "run_item cfg env k \<noteq> Raised e"
    by (rule run_item_not_raised)
next
  assume "Cancelled \<notin> set ts"
  then show "scan_results cfg scanner ts
          = \<lparr> so_returned =
                sort_by_score
                  (filter_opportunities cfg (concat (map returned_opportunities ts))),
              so_scanner =
                \<lparr> opportunities_cache =
                    sort_by_score
                      (filter_opportunities cfg (concat (map returned_opportunities ts))),
                  stat_total_scanned = length ts,
                  stat_opportunities_found =
                    length (sort_by_score
                      (filter_opportunities cfg
                        (concat (map returned_opportunities ts)))) \<rparr>,
              so_log = concat (map logged_warnings ts) \<rparr>"
    by (rule scan_results_no_cancel)
next
  assume "Cancelled \<in> set ts"
  then show "scan_results cfg scanner ts
          = \<lparr> so_returned = [], so_scanner = scanner,
              so_log = concat (map logged_warnings (takeWhile (\<lambda>t. t \<noteq> Cancelled) ts))
                         @ [LogError TypeError] \<rparr>"
    by (rule scan_results_cancel)
next
  assume nc: "\<forall>j \<in> set (scan_task_keys cfg pairs_cache). env j \<noteq> ItemCancelled"
  have c: "Cancelled \<notin> set (map (run_item cfg env) (scan_task_keys cfg pairs_cache))"
  proof
    assume "Cancelled \<in> set (map (run_item cfg env) (scan_task_keys cfg pairs_cache))"
    then obtain j where "j \<in> set (scan_task_keys cfg pairs_cache)"
      and "run_item cfg env j = Cancelled"
      by (metis imageE list.set_map)
    with nc show False by (simp add: run_item_cancelled)
  qed
  show r: "so_returned (scan_all_opportunities cfg scanner pairs_cache env)
          = sort_by_score
              (filter_opportunities cfg
                (concat (map (\<lambda>j. returned_opportunities (run_item cfg env j))
                           (scan_task_keys cfg pairs_cache))))"
    unfolding scan_all_opportunities_def scan_results_no_cancel[OF c]
    by (simp add: comp_def)
  fix j opp
  assume j: "j \<in> set (scan_task_keys cfg pairs_cache)"
    and o: "opp \<in> set (returned_opportunities (run_item cfg env' j))"
    and k: "env' j = env j \<and> keeps_opportunity cfg opp"
  from k have "run_item cfg env' j = run_item cfg env j"
    by (simp add: run_item_def)
  with o have "opp \<in> set (returned_opportunities (run_item cfg env j))" by simp
  with j k show "opp \<in> set (so_returned (scan_all_opportunities cfg scanner pairs_cache env))"
    unfolding r by (auto simp: sort_by_score_def filter_opportunities_def)
qed

text \<open>
  The witness takes the scan of one pair on three timeframes: the loop of the M15 item
  with the malformed channel analysis between two buy analyses, gathered results with
  an exception and with a cancellation, and the whole scan with the faulty M15 item,
  in which the opportunity of the H1 item is in the output, with an M15 item whose
  fetch raises, and with an M15 item that is cancelled.
\<close>

theorem scan_fault_containment_witness:
  "scan_pair_opportunities default_ScanConfig btc_pair M15 SPOT (FetchRaised timeout_error)
       healthy_analyzers
     = ([], [LogWarning timeout_error])
   \<and> snd (scan_analysis_loop default_ScanConfig btc_pair M15 SPOT flat_closes []
        [AnalysisResult (analyze ''support_resistance'' (AnalyzerSignals buy_signals))]) = []
   \<and> analysis_truthy (analyze ''channel_analysis'' (AnalyzerSignals malformed_signals))
   \<and> analysis_confidence (analyze ''channel_analysis'' (AnalyzerSignals malformed_signals))
       = NotANumber
   \<and> scan_analysis_loop default_ScanConfig btc_pair M15 SPOT flat_closes []
        ([AnalysisResult (analyze ''support_resistance'' (AnalyzerSignals buy_signals))]
         @ AnalysisResult (analyze ''channel_analysis'' (AnalyzerSignals malformed_signals))
         # [AnalysisResult (analyze ''ict_techniques'' (AnalyzerSignals buy_signals))])
     = (fst (scan_analysis_loop default_ScanConfig btc_pair M15 SPOT flat_closes []
          [AnalysisResult (analyze ''support_resistance'' (AnalyzerSignals buy_signals))]),
        [LogWarning TypeError])
   \<and> map strategy
        (fst (scan_analysis_loop default_ScanConfig btc_pair M15 SPOT flat_closes []
          [AnalysisResult (analyze ''support_resistance'' (AnalyzerSignals buy_signals))]))
     = [''support_resistance'']
   \<and> rs_confidence buy_signals = Some (Number (9 / 10))
   \<and> min_confidence_threshold default_ScanConfig \<le> 9 / 10
   \<and> rs_first_flag buy_signals
   \<and> flat_closes \<noteq> []
   \<and> Cancelled \<notin> set [Returned [], Raised timeout_error]
   \<and> so_log (scan_results default_ScanConfig init_scanner [Returned [], Raised timeout_error])
     = [LogWarning timeout_error]
   \<and> stat_total_scanned
        (so_scanner
          (scan_results default_ScanConfig init_scanner [Returned [], Raised timeout_error]))
     = 2
   \<and> Cancelled \<in> set [Raised timeout_error, Cancelled, Returned []]
   \<and> scan_results default_ScanConfig init_scanner [Raised timeout_error, Cancelled, Returned []]
     = \<lparr> so_returned = [], so_scanner = init_scanner,
         so_log = [LogWarning timeout_error, LogError TypeError] \<rparr>
   \<and> scan_task_keys default_ScanConfig btc_pairs_cache
     = [(btc_pair, M5, SPOT), (btc_pair, M15, SPOT), (btc_pair, H1, SPOT)]
   \<and> m15_item_faulty (btc_pair, M5, SPOT) \<noteq> ItemCancelled
   \<and> m15_item_faulty (btc_pair, M15, SPOT) \<noteq> ItemCancelled
   \<and> m15_item_faulty (btc_pair, H1, SPOT) \<noteq> ItemCancelled
   \<and> all_items_healthy (btc_pair, H1, SPOT) = m15_item_faulty (btc_pair, H1, SPOT)
   \<and> map strategy
        (returned_opportunities
          (run_item default_ScanConfig all_items_healthy (btc_pair, H1, SPOT)))
     = [''ict_techniques'']
   \<and> keeps_opportunity default_ScanConfig
        (hd (returned_opportunities
          (run_item default_ScanConfig all_items_healthy (btc_pair, H1, SPOT))))
   \<and> hd (returned_opportunities
          (run_item default_ScanConfig all_items_healthy (btc_pair, H1, SPOT)))
       \<in> set (so_returned
          (scan_all_opportunities default_ScanConfig init_scanner btc_pairs_cache
             m15_item_faulty))
   \<and> map timeframe
        (so_returned
          (scan_all_opportunities default_ScanConfig init_scanner btc_pairs_cache
             m15_fetch_raises))
     = [M5, H1]
   \<and> scan_all_opportunities default_ScanConfig init_scanner btc_pairs_cache
        m15_item_cancelled
     = \<lparr> so_returned = [], so_scanner = init_scanner, so_log = [LogError TypeError] \<rparr>"
proof -
  note t = scan_fault_containment[where cfg = default_ScanConfig and pr = btc_pair
      and tf = M15 and mt = SPOT and e = timeout_error and analyzers = healthy_analyzers
      and closes = flat_closes and acc = "[]"
      and as = "[AnalysisResult (analyze ''support_resistance'' (AnalyzerSignals buy_signals))]"
      and a = "analyze ''channel_analysis'' (AnalyzerSignals malformed_signals)"
      and bs = "[AnalysisResult (analyze ''ict_techniques'' (AnalyzerSignals buy_signals))]"
      and s = buy_signals and c = "9 / 10" and env = m15_item_faulty
      and env' = all_items_healthy and scanner = init_scanner
      and pairs_cache = btc_pairs_cache]
  have f: "scan_pair_opportunities default_ScanConfig btc_pair M15 SPOT
       (FetchRaised timeout_error) healthy_analyzers
     = ([], [LogWarning timeout_error])"
    using t by blast
  have m: "snd (scan_analysis_loop default_ScanConfig btc_pair M15 SPOT flat_closes []
        [AnalysisResult (analyze ''support_resistance'' (AnalyzerSignals buy_signals))]) = []
     \<and> analysis_truthy (analyze ''channel_analysis'' (AnalyzerSignals malformed_signals))
     \<and> analysis_confidence (analyze ''channel_analysis'' (AnalyzerSignals malformed_signals))
       = NotANumber"
    by (simp add: item_defs)
  have m': "scan_analysis_loop default_ScanConfig btc_pair M15 SPOT flat_closes []
        ([AnalysisResult (analyze ''support_resistance'' (AnalyzerSignals buy_signals))]
         @ AnalysisResult (analyze ''channel_analysis'' (AnalyzerSignals malformed_signals))
         # [AnalysisResult (analyze ''ict_techniques'' (AnalyzerSignals buy_signals))])
     = (fst (scan_analysis_loop default_ScanConfig btc_pair M15 SPOT flat_closes []
          [AnalysisResult (analyze ''support_resistance'' (AnalyzerSignals buy_signals))]),
        [LogWarning TypeError])"
    using t m by blast
  have p: "map strategy
        (fst (scan_analysis_loop default_ScanConfig btc_pair M15 SPOT flat_closes []
          [AnalysisResult (analyze ''support_resistance'' (AnalyzerSignals buy_signals))]))
     = [''support_resistance'']"
    by (simp add: item_defs)
  have b: "rs_confidence buy_signals = Some (Number (9 / 10))
     \<and> min_confidence_threshold default_ScanConfig \<le> 9 / 10
     \<and> rs_first_flag buy_signals \<and> flat_closes \<noteq> []"
    by (simp add: default_ScanConfig_def)
  have g1: "Cancelled \<notin> set [Returned [], Raised timeout_error]" by simp
  have g2: "Cancelled \<in> set [Raised timeout_error, Cancelled, Returned []]" by simp
  from scan_fault_containment[where cfg = default_ScanConfig and scanner = init_scanner
      and ts = "[Returned [], Raised timeout_error]"] g1
  have r1: "scan_results default_ScanConfig init_scanner [Returned [], Raised timeout_error]
     = \<lparr> so_returned =
           sort_by_score (filter_opportunities default_ScanConfig
             (concat (map returned_opportunities [Returned [], Raised timeout_error]))),
         so_scanner =
           \<lparr> opportunities_cache =
               sort_by_score (filter_opportunities default_ScanConfig
                 (concat (map returned_opportunities [Returned [], Raised timeout_error]))),
             stat_total_scanned = length [Returned [], Raised timeout_error],
             stat_opportunities_found =
               length (sort_by_score (filter_opportunities default_ScanConfig
                 (concat (map returned_opportunities
                   [Returned [], Raised timeout_error])))) \<rparr>,
         so_log = concat (map logged_warnings [Returned [], Raised timeout_error]) \<rparr>"
    by blast
  have l1: "so_log
       (scan_results default_ScanConfig init_scanner [Returned [], Raised timeout_error])
     = [LogWarning timeout_error]"
    unfolding r1 by (simp add: logged_warnings_def)
  have n1: "stat_total_scanned
        (so_scanner
          (scan_results default_ScanConfig init_scanner [Returned [], Raised timeout_error]))
     = 2"
    unfolding r1 by simp
  from scan_fault_containment[where cfg = default_ScanConfig and scanner = init_scanner
      and ts = "[Raised timeout_error, Cancelled, Returned []]"] g2
  have r2: "scan_results default_ScanConfig init_scanner
       [Raised timeout_error, Cancelled, Returned []]
     = \<lparr> so_returned = [], so_scanner = init_scanner,
         so_log = concat (map logged_warnings
                    (takeWhile (\<lambda>t. t \<noteq> Cancelled)
                      [Raised timeout_error, Cancelled, Returned []]))
                  @ [LogError TypeError] \<rparr>"
    by blast
  have r2': "scan_results default_ScanConfig init_scanner
       [Raised timeout_error, Cancelled, Returned []]
     = \<lparr> so_returned = [], so_scanner = init_scanner,
         so_log = [LogWarning timeout_error, LogError TypeError] \<rparr>"
    unfolding r2 by (simp add: logged_warnings_def)
  have keys: "scan_task_keys default_ScanConfig btc_pairs_cache
     = [(btc_pair, M5, SPOT), (btc_pair, M15, SPOT), (btc_pair, H1, SPOT)]"
    by (simp add: scan_defs item_defs)
  have nc3: "m15_item_faulty (btc_pair, M5, SPOT) \<noteq> ItemCancelled
     \<and> m15_item_faulty (btc_pair, M15, SPOT) \<noteq> ItemCancelled
     \<and> m15_item_faulty (btc_pair, H1, SPOT) \<noteq> ItemCancelled"
    by simp
  have nc: "\<forall>j \<in> set (scan_task_keys default_ScanConfig btc_pairs_cache).
      m15_item_faulty j \<noteq> ItemCancelled"
    unfolding keys using nc3 by simp
  have same: "all_items_healthy (btc_pair, H1, SPOT) = m15_item_faulty (btc_pair, H1, SPOT)"
    by simp
  have h1: "map strategy
        (returned_opportunities
          (run_item default_ScanConfig all_items_healthy (btc_pair, H1, SPOT)))
     = [''ict_techniques'']"
    by (simp add: scan_defs item_defs)
  have kp: "keeps_opportunity default_ScanConfig
        (hd (returned_opportunities
          (run_item default_ScanConfig all_items_healthy (btc_pair, H1, SPOT))))"
    by (simp add: scan_defs item_defs)
  have inl: "hd (returned_opportunities
          (run_item default_ScanConfig all_items_healthy (btc_pair, H1, SPOT)))
       \<in> set (returned_opportunities
          (run_item default_ScanConfig all_items_healthy (btc_pair, H1, SPOT)))"
    using h1 by (metis hd_in_set list.map_disc_iff list.distinct(1))
  have jin: "(btc_pair, H1, SPOT) \<in> set (scan_task_keys default_ScanConfig btc_pairs_cache)"
    unfolding keys by simp
  from t nc
  have "\<forall>j \<in> set (scan_task_keys default_ScanConfig btc_pairs_cache).
      \<forall>opp \<in> set (returned_opportunities (run_item default_ScanConfig all_items_healthy j)).
        all_items_healthy j = m15_item_faulty j \<and> keeps_opportunity default_ScanConfig opp \<longrightarrow>
        opp \<in> set (so_returned
          (scan_all_opportunities default_ScanConfig init_scanner btc_pairs_cache
             m15_item_faulty))"
    by blast
  with jin inl same kp
  have out: "hd (returned_opportunities
          (run_item default_ScanConfig all_items_healthy (btc_pair, H1, SPOT)))
       \<in> set (so_returned
          (scan_all_opportunities default_ScanConfig init_scanner btc_pairs_cache
             m15_item_faulty))"
    by blast
  have fr: "map timeframe
        (so_returned
          (scan_all_opportunities default_ScanConfig init_scanner btc_pairs_cache
             m15_fetch_raises))
     = [M5, H1]"
    by (simp add: scan_defs item_defs)
  have ca: "scan_all_opportunities default_ScanConfig init_scanner btc_pairs_cache
        m15_item_cancelled
     = \<lparr> so_returned = [], so_scanner = init_scanner, so_log = [LogError TypeError] \<rparr>"
    by (simp add: scan_defs item_defs)
  show ?thesis
    using f m m' p b g1 l1 n1 g2 r2' keys nc3 same h1 kp out fr ca by blast
qed
end
